theory Spec2Isabelle
  imports Main "HOL-Library.Word" "HOL-Library.Monad_Syntax"
begin

unbundle bit_operations_syntax

section \<open>The bit buffer\<close>

text \<open>
  \<^verbatim>\<open>static int buffer[BUFLEN]\<close> with \<^verbatim>\<open>#define BUFLEN 61\<close>: the array is a store from
  index to value, and only the indices below \<open>BUFLEN\<close> exist. A read or a write at
  another index is undefined behaviour in C; the functions below return \<open>None\<close> there.
\<close>

type_synonym buffer = "nat \<Rightarrow> int"

definition BUFLEN :: nat where
  "BUFLEN = 61"

text \<open>The range of a C \<^verbatim>\<open>int\<close> (32 bits); signed overflow is undefined behaviour.\<close>

definition int_ok :: "int \<Rightarrow> bool" where
  "int_ok x = (- 2147483648 \<le> x \<and> x \<le> 2147483647)"

section \<open>decode\_time.c: parity and BCD\<close>

text \<open>
  \<^verbatim>\<open>for (unsigned i = start; i <= stop; i++) par += (buffer[i] & 1);\<close>
\<close>

function getpar_loop :: "buffer \<Rightarrow> nat \<Rightarrow> nat \<Rightarrow> int \<Rightarrow> int option" where
  "getpar_loop buffer i stop par =
     (if stop < i then Some par
      else if BUFLEN \<le> i then None
      else getpar_loop buffer (Suc i) stop (par + (buffer i AND 1)))"
  by pat_completeness auto
termination
  by (relation "measure (\<lambda>(buffer, i, stop, par). Suc stop - i)") auto

declare getpar_loop.simps [simp del]

text \<open>
  \<^verbatim>\<open>par += (buffer[parity] >> 1); return (par & 1) == 1;\<close>
  The shift of a signed value is arithmetic, which is \<open>drop_bit\<close> on \<open>int\<close>.
\<close>

definition getpar :: "buffer \<Rightarrow> nat \<Rightarrow> nat \<Rightarrow> nat \<Rightarrow> bool option" where
  "getpar buffer start stop parity =
     (case getpar_loop buffer start stop 0 of
        None \<Rightarrow> None
      | Some par \<Rightarrow>
          if BUFLEN \<le> parity then None
          else Some ((par + drop_bit 1 (buffer parity)) AND 1 = 1))"

text \<open>
  \<^verbatim>\<open>for (unsigned i = stop; i >= start; i--) { val += mul * (buffer[i] & 1); mul *= 2;
    if (mul == 16) { if (val > 9) return 100; mul = 10; } } return val;\<close>
  The counter is unsigned: at \<open>i = 0\<close> (so \<open>start = 0\<close>) the decrement wraps to
  \<open>2^32 - 1\<close>, the loop test still holds and the next read is outside the array.
\<close>

function getbcd_loop :: "buffer \<Rightarrow> nat \<Rightarrow> nat \<Rightarrow> int \<Rightarrow> int \<Rightarrow> int option" where
  "getbcd_loop buffer start i mul val =
     (if i < start then Some val
      else if BUFLEN \<le> i then None
      else if \<not> int_ok (val + mul * (buffer i AND 1)) \<or> \<not> int_ok (mul * 2) then None
      else if mul * 2 = 16 then
        (if val + mul * (buffer i AND 1) > 9 then Some 100
         else if i = 0 then None
         else getbcd_loop buffer start (i - 1) 10 (val + mul * (buffer i AND 1)))
      else if i = 0 then None
      else getbcd_loop buffer start (i - 1) (mul * 2) (val + mul * (buffer i AND 1)))"
  by pat_completeness auto
termination
  by (relation "measure (\<lambda>(buffer, start, i, mul, val). i)") auto

declare getbcd_loop.simps [simp del]

definition getbcd :: "buffer \<Rightarrow> nat \<Rightarrow> nat \<Rightarrow> int option" where
  "getbcd buffer start stop = getbcd_loop buffer start stop 1 0"

section \<open>Reading a field the way the broadcast defines it\<close>

text \<open>The number of set A-bits (\<open>bit & 1\<close>) among \<open>buffer[start..stop]\<close>.\<close>

definition count_A :: "buffer \<Rightarrow> nat \<Rightarrow> nat \<Rightarrow> nat" where
  "count_A buffer start stop = length (filter (\<lambda>i. buffer i AND 1 = 1) [start..<Suc stop])"

text \<open>The B-bit (\<open>bit & 2\<close>) of an entry, counted as 0 or 1.\<close>

definition B_bit :: "buffer \<Rightarrow> nat \<Rightarrow> nat" where
  "B_bit buffer p = (if buffer p AND 2 = 0 then 0 else 1)"

text \<open>The 4-bit group whose least significant bit is at index \<open>lo\<close> (MSB first in the buffer).\<close>

definition nibble :: "buffer \<Rightarrow> nat \<Rightarrow> int" where
  "nibble buffer lo =
     (buffer lo AND 1) + 2 * (buffer (lo - 1) AND 1) + 4 * (buffer (lo - 2) AND 1)
       + 8 * (buffer (lo - 3) AND 1)"

text \<open>The all-zero buffer, as the static array is before the first bit arrives.\<close>

definition zero_buffer :: buffer where
  "zero_buffer = (\<lambda>i. 0)"

section \<open>decode\_time.h: the result of decoding a minute\<close>

datatype eDT_length = emin_ok | emin_short | emin_long

datatype eDT_tval = eval_ok | eval_bcd | eval_parity | eval_jump

datatype eDT_DST = eDST_ok | eDST_jump | eDST_done

datatype eDT_leapsecond = els_none | els_one | els_done

record DT_result =
  bit0_ok :: bool
  bit52_ok :: bool
  bit59_ok :: bool
  minute_length :: eDT_length
  minute_status :: eDT_tval
  hour_status :: eDT_tval
  mday_status :: eDT_tval
  wday_status :: eDT_tval
  month_status :: eDT_tval
  year_status :: eDT_tval
  dst_status :: eDT_DST
  leapsecond_status :: eDT_leapsecond
  dst_announce :: bool

text \<open>\<^verbatim>\<open>struct tm\<close> of \<^verbatim>\<open><time.h>\<close>; every field is an \<^verbatim>\<open>int\<close>.\<close>

record tm =
  tm_sec :: int
  tm_min :: int
  tm_hour :: int
  tm_mday :: int
  tm_mon :: int
  tm_year :: int
  tm_wday :: int
  tm_yday :: int
  tm_isdst :: int

text \<open>\<^verbatim>\<open>memset(&newtime, 0, sizeof(newtime))\<close>\<close>

definition zero_tm :: tm where
  "zero_tm = \<lparr>tm_sec = 0, tm_min = 0, tm_hour = 0, tm_mday = 0, tm_mon = 0, tm_year = 0,
              tm_wday = 0, tm_yday = 0, tm_isdst = 0\<rparr>"

text \<open>
  decode\_time.c calls \<^verbatim>\<open>add_minute\<close>, \<^verbatim>\<open>substract_minute\<close>, \<^verbatim>\<open>century_offset\<close> and
  \<^verbatim>\<open>lastday\<close> and reads \<^verbatim>\<open>base_year\<close>; they are declared in calendar.h and defined in
  calendar.c, which are not among the sources. The decoder takes them as a parameter.
\<close>

record calendar =
  base_year :: int
  add_minute :: "tm \<Rightarrow> bool \<Rightarrow> tm"
  substract_minute :: "tm \<Rightarrow> bool \<Rightarrow> tm"
  century_offset :: "tm \<Rightarrow> int"
  lastday :: "tm \<Rightarrow> int"

text \<open>
  The file-scope and function-scope statics of decode\_time.c:
  \<^verbatim>\<open>dst_count\<close>, \<^verbatim>\<open>minute_count\<close>, \<^verbatim>\<open>dt_res\<close>, \<^verbatim>\<open>acc_minlen_partial\<close> (in
  \<^verbatim>\<open>increase_old_time\<close>) and \<^verbatim>\<open>olderr\<close> (in \<^verbatim>\<open>decode_time\<close>).
\<close>

record decoder =
  dst_count :: int
  minute_count :: int
  dt_res :: DT_result
  acc_minlen_partial :: nat
  olderr :: bool

text \<open>All statics are zero-initialised; each enum's first constant is 0.\<close>

definition zero_DT_result :: DT_result where
  "zero_DT_result =
     \<lparr>bit0_ok = False, bit52_ok = False, bit59_ok = False, minute_length = emin_ok,
      minute_status = eval_ok, hour_status = eval_ok, mday_status = eval_ok,
      wday_status = eval_ok, month_status = eval_ok, year_status = eval_ok,
      dst_status = eDST_ok, leapsecond_status = els_none, dst_announce = False\<rparr>"

definition init_decoder :: decoder where
  "init_decoder =
     \<lparr>dst_count = 0, minute_count = 0, dt_res = zero_DT_result, acc_minlen_partial = 0,
      olderr = False\<rparr>"

section \<open>decode\_time.c: the decoder\<close>

text \<open>Indices 0 and 59 are inside the array.\<close>

definition check_time_sanity :: "int \<Rightarrow> buffer \<Rightarrow> DT_result \<Rightarrow> bool \<times> DT_result" where
  "check_time_sanity minlen buffer dt =
     (let dt1 = dt\<lparr>minute_length :=
                     (if minlen = - 1 \<or> minlen > 61 then emin_long
                      else if minlen < 59 then emin_short
                      else emin_ok)\<rparr>;
          dt2 = dt1\<lparr>dst_status := eDST_ok\<rparr>;
          dt3 = dt2\<lparr>bit0_ok := (buffer 0 = 4)\<rparr>;
          dt4 = dt3\<lparr>bit59_ok := (buffer 59 = 0)\<rparr>
      in (minute_length dt4 = emin_ok \<and> bit0_ok dt4 \<and> bit59_ok dt4, dt4))"

text \<open>
  \<^verbatim>\<open>increase_old_time\<close>. \<open>acc_minlen\<close> and \<open>acc_minlen_partial\<close> are \<^verbatim>\<open>unsigned\<close>:
  the sum wraps at \<open>2^32\<close>. The result is the increase, the advanced time and the new
  \<open>acc_minlen_partial\<close>. The two \<^verbatim>\<open>for\<close> loops call \<^verbatim>\<open>add_minute\<close> (for a positive
  increase) or \<^verbatim>\<open>substract_minute\<close> (for a negative one) \<open>|increase|\<close> times.
\<close>

definition increase_old_time ::
  "calendar \<Rightarrow> nat \<Rightarrow> int \<Rightarrow> nat \<Rightarrow> tm \<Rightarrow> bool \<Rightarrow> nat \<Rightarrow> int \<times> tm \<times> nat" where
  "increase_old_time cal init_min minlen acc_minlen time announce partial =
     (let sum = (partial + acc_minlen) mod 2 ^ 32;
          partial1 = (if acc_minlen \<le> 59000 then sum else partial);
          acc = (if acc_minlen \<le> 59000 \<and> partial1 \<ge> 60000 then partial1 else acc_minlen);
          partial2 = (if acc_minlen \<le> 59000 \<and> partial1 \<ge> 60000 then partial1 mod 60000
                      else partial1);
          increase0 = int (acc div 60000);
          partial3 = (if acc \<ge> 60000 then partial2 mod 60000 else partial2);
          increase = (if acc mod 60000 > 59000 then increase0 + 1 else increase0);
          partial4 = (if acc mod 60000 > 59000 then partial3 mod 60000 else partial3);
          time1 = (if init_min < 2 \<and> increase > 0
                   then ((\<lambda>t. add_minute cal t announce) ^^ nat increase) time
                   else time);
          time2 = (if init_min < 2 \<and> increase < 0
                   then ((\<lambda>t. substract_minute cal t announce) ^^ nat (- increase)) time1
                   else time1)
      in (increase, time2, partial4))"

text \<open>
  The locals of \<^verbatim>\<open>calculate_date_time\<close> that live across its blocks, with \<^verbatim>\<open>*newtime\<close>
  and \<^verbatim>\<open>dt_res\<close>.
\<close>

record calc =
  p1 :: bool
  p2 :: bool
  p3 :: bool
  p4 :: bool
  newtime :: tm
  res :: DT_result

text \<open>The guard of every adoption: \<^verbatim>\<open>(init_min == 2 || increase != 0) && p && errflags == 0\<close>\<close>

definition adopt :: "nat \<Rightarrow> nat \<Rightarrow> int \<Rightarrow> bool \<Rightarrow> bool" where
  "adopt init_min errflags increase p = ((init_min = 2 \<or> increase \<noteq> 0) \<and> p \<and> errflags = 0)"

text \<open>
  \<^verbatim>\<open>calculate_date_time\<close> is five blocks. Each is written as a function of the values
  that \<^verbatim>\<open>getpar\<close> and \<^verbatim>\<open>getbcd\<close> returned for it (\<open>p\<close>, \<open>tmp0\<close>, \<open>tmp1\<close>);
  \<open>calculate_date_time\<close> below makes the calls and runs the blocks in order.
\<close>

text \<open>Lines 117-130: the year.\<close>

definition calc_year :: "nat \<Rightarrow> nat \<Rightarrow> int \<Rightarrow> bool \<Rightarrow> int \<Rightarrow> calc \<Rightarrow> calc" where
  "calc_year init_min errflags increase p tmp0 c =
     (let c1 = (if \<not> p then c\<lparr>p1 := p, res := (res c)\<lparr>year_status := eval_parity\<rparr>\<rparr>
                else if tmp0 > 99
                then c\<lparr>p1 := False, res := (res c)\<lparr>year_status := eval_bcd\<rparr>\<rparr>
                else c\<lparr>p1 := p, res := (res c)\<lparr>year_status := eval_ok\<rparr>\<rparr>)
      in if adopt init_min errflags increase (p1 c1)
         then c1\<lparr>newtime := (newtime c1)\<lparr>tm_year := tmp0\<rparr>\<rparr>
         else c1)"

text \<open>Lines 132-161: month and day of month; \<open>time\<close> is the advanced current time.\<close>

definition calc_month_mday ::
  "nat \<Rightarrow> nat \<Rightarrow> int \<Rightarrow> bool \<Rightarrow> int \<Rightarrow> int \<Rightarrow> tm \<Rightarrow> calc \<Rightarrow> calc" where
  "calc_month_mday init_min errflags increase p tmp0 tmp1 time c =
     (let c1 = (if \<not> p
                then c\<lparr>p2 := p, res := (res c)\<lparr>month_status := eval_parity,
                                                 mday_status := eval_parity\<rparr>\<rparr>
                else
                  let ca = (if tmp0 = 0 \<or> tmp0 > 12
                            then c\<lparr>p2 := False, res := (res c)\<lparr>month_status := eval_bcd\<rparr>\<rparr>
                            else c\<lparr>p2 := p, res := (res c)\<lparr>month_status := eval_ok\<rparr>\<rparr>)
                  in (if tmp1 = 0 \<or> tmp1 > 31
                      then ca\<lparr>p2 := False, res := (res ca)\<lparr>mday_status := eval_bcd\<rparr>\<rparr>
                      else ca\<lparr>res := (res ca)\<lparr>mday_status := eval_ok\<rparr>\<rparr>))
      in if adopt init_min errflags increase (p2 c1)
         then
           let c2 = c1\<lparr>newtime := (newtime c1)\<lparr>tm_mon := tmp0\<rparr>\<rparr>;
               c3 = (if init_min = 0 \<and> tm_mon time \<noteq> tm_mon (newtime c2)
                     then c2\<lparr>res := (res c2)\<lparr>month_status := eval_jump\<rparr>\<rparr> else c2);
               c4 = c3\<lparr>newtime := (newtime c3)\<lparr>tm_mday := tmp1\<rparr>\<rparr>
           in (if init_min = 0 \<and> tm_mday time \<noteq> tm_mday (newtime c4)
               then c4\<lparr>res := (res c4)\<lparr>mday_status := eval_jump\<rparr>\<rparr> else c4)
         else c1)"

text \<open>Lines 163-180: the day of the week.\<close>

definition calc_wday :: "nat \<Rightarrow> nat \<Rightarrow> int \<Rightarrow> bool \<Rightarrow> int \<Rightarrow> tm \<Rightarrow> calc \<Rightarrow> calc" where
  "calc_wday init_min errflags increase p tmp0 time c =
     (let c1 = (if \<not> p then c\<lparr>p3 := p, res := (res c)\<lparr>wday_status := eval_parity\<rparr>\<rparr>
                else if tmp0 = 7
                then c\<lparr>p3 := False, res := (res c)\<lparr>wday_status := eval_bcd\<rparr>\<rparr>
                else c\<lparr>p3 := p, res := (res c)\<lparr>wday_status := eval_ok\<rparr>\<rparr>)
      in if adopt init_min errflags increase (p3 c1)
         then
           let c2 = c1\<lparr>newtime := (newtime c1)\<lparr>tm_wday := tmp0\<rparr>\<rparr>
           in (if init_min = 0 \<and> tm_wday time \<noteq> tm_wday (newtime c2)
               then c2\<lparr>res := (res c2)\<lparr>wday_status := eval_jump\<rparr>\<rparr> else c2)
         else c1)"

text \<open>Lines 182-196: the century, the full year and the last day of the month.\<close>

definition calc_century :: "calendar \<Rightarrow> nat \<Rightarrow> tm \<Rightarrow> calc \<Rightarrow> calc" where
  "calc_century cal init_min time c =
     (let centofs = century_offset cal (newtime c) in
      if centofs = - 1
      then c\<lparr>p1 := False, res := (res c)\<lparr>year_status := eval_bcd\<rparr>\<rparr>
      else
        let c1 = (if init_min = 0 \<and>
                     tm_year time \<noteq> base_year cal + 100 * centofs + tm_year (newtime c)
                  then c\<lparr>res := (res c)\<lparr>year_status := eval_jump\<rparr>\<rparr> else c);
            c2 = c1\<lparr>newtime := (newtime c1)\<lparr>tm_year :=
                       tm_year (newtime c1) + (base_year cal + 100 * centofs)\<rparr>\<rparr>
        in (if tm_mday (newtime c2) > lastday cal (newtime c2)
            then c2\<lparr>p1 := False, p2 := False, p3 := False,
                    res := (res c2)\<lparr>mday_status := eval_bcd\<rparr>\<rparr>
            else c2))"

text \<open>Lines 198-227: hour and minute.\<close>

definition calc_hour_minute ::
  "nat \<Rightarrow> nat \<Rightarrow> int \<Rightarrow> bool \<Rightarrow> int \<Rightarrow> int \<Rightarrow> tm \<Rightarrow> calc \<Rightarrow> calc" where
  "calc_hour_minute init_min errflags increase p tmp0 tmp1 time c =
     (let c1 = (if \<not> p
                then c\<lparr>p4 := p, res := (res c)\<lparr>hour_status := eval_parity,
                                                 minute_status := eval_parity\<rparr>\<rparr>
                else
                  let ca = (if tmp0 > 23
                            then c\<lparr>p4 := False, res := (res c)\<lparr>hour_status := eval_bcd\<rparr>\<rparr>
                            else c\<lparr>p4 := p, res := (res c)\<lparr>hour_status := eval_ok\<rparr>\<rparr>)
                  in (if tmp1 > 59
                      then ca\<lparr>p4 := False, res := (res ca)\<lparr>minute_status := eval_bcd\<rparr>\<rparr>
                      else ca\<lparr>res := (res ca)\<lparr>minute_status := eval_ok\<rparr>\<rparr>))
      in if adopt init_min errflags increase (p4 c1)
         then
           let c2 = c1\<lparr>newtime := (newtime c1)\<lparr>tm_hour := tmp0\<rparr>\<rparr>;
               c3 = (if init_min = 0 \<and> tm_hour time \<noteq> tm_hour (newtime c2)
                     then c2\<lparr>res := (res c2)\<lparr>hour_status := eval_jump\<rparr>\<rparr> else c2);
               c4 = c3\<lparr>newtime := (newtime c3)\<lparr>tm_min := tmp1\<rparr>\<rparr>
           in (if init_min = 0 \<and> tm_min time \<noteq> tm_min (newtime c4)
               then c4\<lparr>res := (res c4)\<lparr>minute_status := eval_jump\<rparr>\<rparr> else c4)
         else c1)"

text \<open>
  \<^verbatim>\<open>return (errflags << 4) | ((!p4) << 3) | ((!p3) << 2) | ((!p2) << 1) | (!p1);\<close>
  on \<^verbatim>\<open>unsigned\<close>.
\<close>

definition pack_errflags :: "nat \<Rightarrow> calc \<Rightarrow> nat" where
  "pack_errflags errflags c =
     (push_bit 4 errflags mod 2 ^ 32) OR push_bit 3 (of_bool (\<not> p4 c))
       OR push_bit 2 (of_bool (\<not> p3 c)) OR push_bit 1 (of_bool (\<not> p2 c)) OR of_bool (\<not> p1 c)"

text \<open>
  The blocks in order, from the ten values read from the buffer: first the three that fill
  in the date (lines 117-180), then the century and hour and minute. \<open>p1\<close> to \<open>p4\<close> are
  assigned before they are read, so their initial value does not matter.
\<close>

definition calc_dates ::
  "nat \<Rightarrow> nat \<Rightarrow> int \<Rightarrow> tm \<Rightarrow> tm \<Rightarrow> DT_result
     \<Rightarrow> bool \<Rightarrow> int \<Rightarrow> bool \<Rightarrow> int \<Rightarrow> int \<Rightarrow> bool \<Rightarrow> int \<Rightarrow> calc" where
  "calc_dates init_min errflags increase time nt dt py y pm mo md pw wd =
     calc_wday init_min errflags increase pw wd time
       (calc_month_mday init_min errflags increase pm mo md time
         (calc_year init_min errflags increase py y
           \<lparr>p1 = False, p2 = False, p3 = False, p4 = False, newtime = nt, res = dt\<rparr>))"

definition calc_blocks ::
  "calendar \<Rightarrow> nat \<Rightarrow> nat \<Rightarrow> int \<Rightarrow> tm \<Rightarrow> tm \<Rightarrow> DT_result
     \<Rightarrow> bool \<Rightarrow> int \<Rightarrow> bool \<Rightarrow> int \<Rightarrow> int \<Rightarrow> bool \<Rightarrow> int \<Rightarrow> bool \<Rightarrow> int \<Rightarrow> int \<Rightarrow> calc" where
  "calc_blocks cal init_min errflags increase time nt dt py y pm mo md pw wd ph h mi =
     calc_hour_minute init_min errflags increase ph h mi time
       (calc_century cal init_min time
         (calc_dates init_min errflags increase time nt dt py y pm mo md pw wd))"

definition calculate_date_time ::
  "calendar \<Rightarrow> nat \<Rightarrow> nat \<Rightarrow> int \<Rightarrow> buffer \<Rightarrow> tm \<Rightarrow> tm \<Rightarrow> DT_result
     \<Rightarrow> (nat \<times> tm \<times> DT_result) option" where
  "calculate_date_time cal init_min errflags increase buffer time nt dt = do {
     py \<leftarrow> getpar buffer 17 24 54;
     y \<leftarrow> getbcd buffer 17 24;
     pm \<leftarrow> getpar buffer 25 35 55;
     mo \<leftarrow> getbcd buffer 25 29;
     md \<leftarrow> getbcd buffer 30 35;
     pw \<leftarrow> getpar buffer 36 38 56;
     wd \<leftarrow> getbcd buffer 36 38;
     ph \<leftarrow> getpar buffer 39 51 57;
     h \<leftarrow> getbcd buffer 39 44;
     mi \<leftarrow> getbcd buffer 45 51;
     let c = calc_blocks cal init_min errflags increase time nt dt py y pm mo md pw wd ph h mi;
     Some (pack_errflags errflags c, newtime c, res c)
   }"

definition stamp_date_time :: "nat \<Rightarrow> tm \<Rightarrow> tm \<Rightarrow> DT_result \<Rightarrow> tm" where
  "stamp_date_time errflags nt time dt =
     (if minute_length dt = emin_ok \<and> errflags AND 0x1f = 0
      then
        let t1 = time\<lparr>tm_min := tm_min nt, tm_hour := tm_hour nt, tm_mday := tm_mday nt,
                      tm_mon := tm_mon nt, tm_year := tm_year nt, tm_wday := tm_wday nt\<rparr>
        in (if dst_status dt \<noteq> eDST_jump then t1\<lparr>tm_isdst := tm_isdst nt\<rparr> else t1)
      else time)"

text \<open>\<^verbatim>\<open>handle_leap_second\<close>; index 17 is inside the array.\<close>

definition handle_leap_second ::
  "nat \<Rightarrow> int \<Rightarrow> buffer \<Rightarrow> tm \<Rightarrow> DT_result \<Rightarrow> nat \<times> DT_result" where
  "handle_leap_second errflags minlen buffer time dt =
     (let (e1, dt1) =
            (if tm_min time = 0
             then
               let d = dt\<lparr>leapsecond_status := els_done\<rparr>
               in (if minlen = 60
                   then (errflags OR push_bit 5 1, d\<lparr>minute_length := emin_short\<rparr>)
                   else if minlen = 61 \<and> buffer 17 = 1
                   then (errflags, d\<lparr>leapsecond_status := els_one\<rparr>)
                   else (errflags, d))
             else (errflags, dt\<lparr>leapsecond_status := els_none\<rparr>))
      in (if minlen = 61 \<and> leapsecond_status dt1 = els_none
          then (e1 OR push_bit 5 1, dt1\<lparr>minute_length := emin_long\<rparr>)
          else (e1, dt1)))"

text \<open>
  What \<^verbatim>\<open>decode_time\<close> leaves behind: the returned \<^verbatim>\<open>dt_res\<close>, the current time
  \<^verbatim>\<open>*time\<close>, the local \<^verbatim>\<open>newtime\<close> (the candidate) and \<^verbatim>\<open>errflags\<close> as they are at the
  \<^verbatim>\<open>return\<close>, the increase computed on the way, and the statics.
\<close>

record decoded =
  result :: DT_result
  curtime :: tm
  candidate :: tm
  flags :: nat
  increased :: int
  advanced :: tm
  statics :: decoder

text \<open>
  \<^verbatim>\<open>decode_time\<close>. \<^verbatim>\<open>handle_special_bits\<close> has an empty body. The calls of
  \<^verbatim>\<open>handle_leap_second\<close> and \<^verbatim>\<open>handle_dst\<close> stand between \<^verbatim>\<open>#if 0\<close> and \<^verbatim>\<open>#endif\<close>
  (lines 350-356) and are not compiled, so they are not part of this function.
  \<open>advanced\<close> is \<^verbatim>\<open>*time\<close> after \<^verbatim>\<open>increase_old_time\<close>.
\<close>

definition decode_time_run ::
  "calendar \<Rightarrow> decoder \<Rightarrow> nat \<Rightarrow> int \<Rightarrow> nat \<Rightarrow> buffer \<Rightarrow> tm \<Rightarrow> decoded option" where
  "decode_time_run cal st init_min minlen acc_minlen buffer time = do {
     let time0 = (if init_min = 2 then time\<lparr>tm_isdst := - 1\<rparr> else time);
     let nt0 = zero_tm\<lparr>tm_isdst := tm_isdst time0\<rparr>;
     let (ok, dt1) = check_time_sanity minlen buffer (dt_res st);
     let errflags0 = (if ok then 0 else 1);
     let mc = (if errflags0 = 0
               then (if minute_count st + 1 = 60 then 0 else minute_count st + 1)
               else minute_count st);
     let (increase, time1, partial) =
           increase_old_time cal init_min minlen acc_minlen time0 (dst_announce dt1)
             (acc_minlen_partial st);
     (errflags, nt, dt2) \<leftarrow>
        calculate_date_time cal init_min errflags0 increase buffer time1 nt0 dt1;
     let time2 = stamp_date_time errflags nt time1 dt2;
     let oe1 = (if olderr st \<and> errflags = 0 then False else olderr st);
     let oe = (if errflags \<noteq> 0 then True else oe1);
     Some \<lparr>result = dt2, curtime = time2, candidate = nt, flags = errflags,
            increased = increase, advanced = time1,
            statics = st\<lparr>minute_count := mc, dt_res := dt2, acc_minlen_partial := partial,
                         olderr := oe\<rparr>\<rparr>
   }"

text \<open>The function as its caller sees it: the returned structure and the updated time.\<close>

definition decode_time ::
  "calendar \<Rightarrow> decoder \<Rightarrow> nat \<Rightarrow> int \<Rightarrow> nat \<Rightarrow> buffer \<Rightarrow> tm \<Rightarrow> (DT_result \<times> tm) option" where
  "decode_time cal st init_min minlen acc_minlen buffer time =
     map_option (\<lambda>d. (result d, curtime d))
       (decode_time_run cal st init_min minlen acc_minlen buffer time)"

text \<open>The test of \<^verbatim>\<open>stamp_date_time\<close>: the candidate replaces the current time.\<close>

definition commits :: "decoded \<Rightarrow> bool" where
  "commits d = (minute_length (result d) = emin_ok \<and> flags d AND 0x1f = 0)"

section \<open>Notions used to state the properties\<close>

text \<open>The day of the month is beyond the last day of the candidate's month (line 192).\<close>

definition mday_over :: "calendar \<Rightarrow> tm \<Rightarrow> bool" where
  "mday_over cal nt =
     (tm_mday nt > lastday cal (nt\<lparr>tm_year := tm_year nt
        + (base_year cal + 100 * century_offset cal nt)\<rparr>))"

text \<open>\<^verbatim>\<open>errflags = check_time_sanity(minlen, buffer) ? 0 : 1\<close>\<close>

definition errflags0 :: "int \<Rightarrow> buffer \<Rightarrow> DT_result \<Rightarrow> nat" where
  "errflags0 minlen buffer dt = (if fst (check_time_sanity minlen buffer dt) then 0 else 1)"

text \<open>A field status is ok, or is jump on a settled decoder.\<close>

definition ok_or_jump :: "nat \<Rightarrow> eDT_tval \<Rightarrow> bool" where
  "ok_or_jump init_min s = (s = eval_ok \<or> (init_min = 0 \<and> s = eval_jump))"

section \<open>Example buffers\<close>

text \<open>A year field (bits 17-24) whose tens group is 1010 and whose units group is 0101.\<close>

definition year_tens_bad :: buffer where
  "year_tens_bad = zero_buffer(17 := 1, 19 := 1, 22 := 1, 24 := 1)"

text \<open>A year field whose units group is 1010.\<close>

definition year_units_bad :: buffer where
  "year_units_bad = zero_buffer(21 := 1, 23 := 1)"

section \<open>The calendar\<close>

text \<open>
  Modelled from the spec: calendar.c (\<^verbatim>\<open>base_year\<close>, \<^verbatim>\<open>lastday\<close>, \<^verbatim>\<open>century_offset\<close>,
  \<^verbatim>\<open>add_minute\<close>, \<^verbatim>\<open>substract_minute\<close>) is not among the sources. The spec (4.1) gives
  the base year 1900, the Gregorian leap rule, the century found from the year within the
  century, month, day and weekday, and minute arithmetic with carries through hour, day,
  month and year. This instance is used where a concrete calendar is needed; the theorems
  about the decoder hold for every calendar.
\<close>

definition spec_isleapyear :: "int \<Rightarrow> bool" where
  "spec_isleapyear y = ((y mod 4 = 0 \<and> y mod 100 \<noteq> 0) \<or> y mod 400 = 0)"

definition spec_lastday :: "tm \<Rightarrow> int" where
  "spec_lastday t =
     (if tm_mon t = 4 \<or> tm_mon t = 6 \<or> tm_mon t = 9 \<or> tm_mon t = 11 then 30
      else if tm_mon t = 2 then (if spec_isleapyear (tm_year t) then 29 else 28)
      else 31)"

text \<open>Zeller's congruence for the Gregorian calendar, turned to 1 = Monday .. 7 = Sunday.\<close>

definition spec_weekday :: "int \<Rightarrow> int \<Rightarrow> int \<Rightarrow> int" where
  "spec_weekday y m d =
     (let m' = (if m < 3 then m + 12 else m);
          y' = (if m < 3 then y - 1 else y);
          k = y' mod 100;
          j = y' div 100;
          h = (d + (13 * (m' + 1)) div 5 + k + k div 4 + j div 4 + 5 * j) mod 7
      in (h + 5) mod 7 + 1)"

text \<open>The first century (0..3 above the base year) whose weekday matches, else -1.\<close>

definition spec_century_offset :: "tm \<Rightarrow> int" where
  "spec_century_offset t =
     (let fits = (\<lambda>c. spec_weekday (1900 + 100 * c + tm_year t) (tm_mon t) (tm_mday t) mod 7
                        = tm_wday t mod 7)
      in if fits 0 then 0 else if fits 1 then 1 else if fits 2 then 2
         else if fits 3 then 3 else - 1)"

text \<open>
  One minute forward, with the carries. With an announced change the hour that begins on
  the last Sunday of March at 01:00 moves to 02:00 summer time, and the one that begins on
  the last Sunday of October at 02:00 summer time moves back to 01:00 winter time.
\<close>

definition spec_last_sunday :: "tm \<Rightarrow> bool" where
  "spec_last_sunday t = (tm_wday t mod 7 = 0 \<and> tm_mday t > spec_lastday t - 7)"

definition spec_add_minute :: "tm \<Rightarrow> bool \<Rightarrow> tm" where
  "spec_add_minute t announce =
     (if tm_min t + 1 < 60 then t\<lparr>tm_min := tm_min t + 1\<rparr>
      else
        let t1 = t\<lparr>tm_min := 0, tm_hour := tm_hour t + 1\<rparr>;
            t2 = (if announce \<and> spec_last_sunday t1 \<and> tm_mon t1 = 3 \<and> tm_hour t1 = 1
                     \<and> tm_isdst t1 = 0
                  then t1\<lparr>tm_hour := 2, tm_isdst := 1\<rparr>
                  else if announce \<and> spec_last_sunday t1 \<and> tm_mon t1 = 10 \<and> tm_hour t1 = 2
                     \<and> tm_isdst t1 = 1
                  then t1\<lparr>tm_hour := 1, tm_isdst := 0\<rparr>
                  else t1)
        in if tm_hour t2 < 24 then t2
           else
             let t3 = t2\<lparr>tm_hour := 0, tm_mday := tm_mday t2 + 1,
                          tm_wday := tm_wday t2 mod 7 + 1\<rparr>
             in if tm_mday t3 \<le> spec_lastday t3 then t3
                else if tm_mon t3 < 12 then t3\<lparr>tm_mday := 1, tm_mon := tm_mon t3 + 1\<rparr>
                else t3\<lparr>tm_mday := 1, tm_mon := 1, tm_year := tm_year t3 + 1\<rparr>)"

definition spec_substract_minute :: "tm \<Rightarrow> bool \<Rightarrow> tm" where
  "spec_substract_minute t announce =
     (if 0 \<le> tm_min t - 1 then t\<lparr>tm_min := tm_min t - 1\<rparr>
      else
        let t1 = (if announce \<and> spec_last_sunday t \<and> tm_mon t = 3 \<and> tm_hour t = 2
                     \<and> tm_isdst t = 1
                  then t\<lparr>tm_hour := 1, tm_isdst := 0\<rparr>
                  else if announce \<and> spec_last_sunday t \<and> tm_mon t = 10 \<and> tm_hour t = 1
                     \<and> tm_isdst t = 0
                  then t\<lparr>tm_hour := 2, tm_isdst := 1\<rparr>
                  else t);
            t2 = t1\<lparr>tm_min := 59, tm_hour := tm_hour t1 - 1\<rparr>
        in if 0 \<le> tm_hour t2 then t2
           else
             let t3 = t2\<lparr>tm_hour := 23, tm_mday := tm_mday t2 - 1,
                          tm_wday := (tm_wday t2 + 5) mod 7 + 1\<rparr>
             in if 1 \<le> tm_mday t3 then t3
                else
                  let t4 = (if 1 < tm_mon t3 then t3\<lparr>tm_mon := tm_mon t3 - 1\<rparr>
                            else t3\<lparr>tm_mon := 12, tm_year := tm_year t3 - 1\<rparr>)
                  in t4\<lparr>tm_mday := spec_lastday t4\<rparr>)"

definition spec_calendar :: calendar where
  "spec_calendar =
     \<lparr>base_year = 1900, add_minute = spec_add_minute,
      substract_minute = spec_substract_minute,
      century_offset = spec_century_offset, lastday = spec_lastday\<rparr>"

section \<open>An example minute\<close>

text \<open>
  The minute of Friday 2019-03-15 12:34, winter time. Second 0 is the minute marker (4).
  A-bits: year 19 at 17-24 (0001 1001), month 3 at 25-29 (0 0011), day 15 at 30-35
  (01 0101), weekday 5 at 36-38 (101), hour 12 at 39-44 (01 0010), minute 34 at 45-51
  (011 0100), and the fixed ones of seconds 53-58. B-bits: the parity bits of seconds 54-57
  make the number of ones of each group odd; only the weekday group needs one (second 56
  holds 3).
\<close>

definition frame_2019 :: buffer where
  "frame_2019 = zero_buffer
     (0 := 4,
      20 := 1, 21 := 1, 24 := 1,
      28 := 1, 29 := 1,
      31 := 1, 33 := 1, 35 := 1,
      36 := 1, 38 := 1,
      40 := 1, 43 := 1,
      46 := 1, 47 := 1, 49 := 1,
      53 := 1, 54 := 1, 55 := 1, 56 := 3, 57 := 1, 58 := 1)"

text \<open>The current time one minute before, with the hour wrong by two: 10:33.\<close>

definition time_1033 :: tm where
  "time_1033 = \<lparr>tm_sec = 0, tm_min = 33, tm_hour = 10, tm_mday = 15, tm_mon = 3,
                tm_year = 2019, tm_wday = 5, tm_yday = 0, tm_isdst = 0\<rparr>"

text \<open>One minute before, all right: 12:33.\<close>

definition time_1233 :: tm where
  "time_1233 = time_1033\<lparr>tm_hour := 12\<rparr>"

text \<open>The current time with the minute wrong: 12:40.\<close>

definition time_1240 :: tm where
  "time_1240 = time_1033\<lparr>tm_hour := 12, tm_min := 40\<rparr>"

text \<open>The current time on the hour: 12:00.\<close>

definition time_1200 :: tm where
  "time_1200 = time_1033\<lparr>tm_hour := 12, tm_min := 0\<rparr>"

text \<open>
  Calls of \<open>decode_time\<close> on a settled decoder (\<open>init_min = 0\<close>) with the example minute,
  \<open>minlen = 59\<close> and \<open>acc_minlen = 60000\<close>, from the three current times.
\<close>

definition run_clean :: "decoded option" where
  "run_clean = decode_time_run spec_calendar init_decoder 0 59 60000 frame_2019 time_1233"

definition run_1033 :: "decoded option" where
  "run_1033 = decode_time_run spec_calendar init_decoder 0 59 60000 frame_2019 time_1033"

definition run_1240 :: "decoded option" where
  "run_1240 = decode_time_run spec_calendar init_decoder 0 59 60000 frame_2019 time_1240"

text \<open>
  A call with \<open>init_min = 1\<close> on the hour, no time accumulated (\<open>acc_minlen = 0\<close>) and the
  all-zero buffer, whose second 0 is not a minute marker.
\<close>

definition run_on_hour :: "decoded option" where
  "run_on_hour = decode_time_run spec_calendar init_decoder 1 59 0 zero_buffer time_1200"

text \<open>A first call (\<open>init_min = 2\<close>) with the example minute; the DST flag comes in as 0.\<close>

definition run_first :: "decoded option" where
  "run_first = decode_time_run spec_calendar init_decoder 2 59 60000 frame_2019 time_1233"

text \<open>A settled call with the all-zero buffer, which fails the sanity check.\<close>

definition run_no_marker :: "decoded option" where
  "run_no_marker = decode_time_run spec_calendar init_decoder 0 59 60000 zero_buffer time_1233"

text \<open>A leap-second minute on the hour: 61 bits and a set A-bit in second 17.\<close>

definition run_leap_61 :: "decoded option" where
  "run_leap_61 =
     decode_time_run spec_calendar init_decoder 1 61 0 (zero_buffer(17 := 1)) time_1200"

section \<open>input.h and mainloop.h: what the readers and the main loop exchange\<close>

text \<open>
  input.h and mainloop.h are not among the sources; the constants and fields are those
  input.c and mainloop.c use. The field \<^verbatim>\<open>done\<close> is written \<open>done'\<close>.
\<close>

datatype eGB_marker = emark_none | emark_minute | emark_toolong | emark_late

datatype eGB_bitval = ebv_none | ebv_00 | ebv_10 | ebv_01 | ebv_11 | ebv_bom

datatype eGB_hwstat = ehw_ok | ehw_receive | ehw_transmit | ehw_random

record GB_result =
  bad_io :: bool
  bitval :: eGB_bitval
  marker :: eGB_marker
  hwstat :: eGB_hwstat
  done' :: bool
  skip :: bool

datatype eSC_status = esc_unset | esc_ok | esc_unsafe | esc_fail

record ML_result =
  logfilename :: string
  settime :: bool
  settime_result :: eSC_status
  quit :: bool

section \<open>The log file as a stream\<close>

text \<open>
  \<^verbatim>\<open>FILE *logfile\<close> opened for reading: the characters not yet read (a pushed-back
  character in front) and the end-of-file indicator. A character read is \<open>Some c\<close>, and
  \<open>None\<close> is \<^verbatim>\<open>EOF\<close>.
\<close>

record stream =
  unread :: "char list"
  at_eof :: bool

text \<open>\<^verbatim>\<open>getc\<close>: reading at the end sets the indicator and gives \<^verbatim>\<open>EOF\<close>.\<close>

definition getc :: "stream \<Rightarrow> char option \<times> stream" where
  "getc f = (case unread f of
               [] \<Rightarrow> (None, f\<lparr>at_eof := True\<rparr>)
             | c # cs \<Rightarrow> (Some c, f\<lparr>unread := cs\<rparr>))"

text \<open>\<^verbatim>\<open>ungetc\<close>: pushing \<^verbatim>\<open>EOF\<close> back does nothing; a character clears the indicator.\<close>

definition ungetc :: "char option \<Rightarrow> stream \<Rightarrow> stream" where
  "ungetc inch f = (case inch of
                      None \<Rightarrow> f
                    | Some c \<Rightarrow> f\<lparr>unread := c # unread f, at_eof := False\<rparr>)"

text \<open>
  \<^verbatim>\<open>strchr("012345\nxr#*_a", inch) != NULL\<close>. \<^verbatim>\<open>strchr\<close> also finds the terminating NUL
  of the string, so the character 0 counts as valid; \<^verbatim>\<open>EOF\<close> does not.
\<close>

definition valid_char :: "char option \<Rightarrow> bool" where
  "valid_char inch = (case inch of
                        None \<Rightarrow> False
                      | Some c \<Rightarrow> c \<in> set ''012345'' \<or> c = CHR 0x0A \<or> c \<in> set ''xr#*_a''
                                  \<or> c = CHR 0x00)"

text \<open>
  \<^verbatim>\<open>skip_invalid\<close>: the \<^verbatim>\<open>do ... while\<close> loop; \<open>inch\<close> is the character of the previous
  round (\<^verbatim>\<open>oldinch\<close> after the first assignment), \<^verbatim>\<open>EOF\<close> at the start. A carriage
  return (0x0D) followed by anything but a line feed (0x0A) becomes a line feed and the
  follower is pushed back.
\<close>

function skip_invalid_loop :: "char option \<Rightarrow> stream \<Rightarrow> char option \<times> stream" where
  "skip_invalid_loop inch f =
     (if at_eof f then (inch, f)
      else if inch = Some (CHR 0x0D) \<and> fst (getc f) \<noteq> Some (CHR 0x0A)
      then (Some (CHR 0x0A), ungetc (fst (getc f)) (snd (getc f)))
      else if valid_char (fst (getc f)) then getc f
      else skip_invalid_loop (fst (getc f)) (snd (getc f)))"
  by pat_completeness auto
termination
  by (relation "measure (\<lambda>(inch, f). length (unread f) + (if at_eof f then 0 else 1))")
     (auto simp: getc_def split: list.splits)

declare skip_invalid_loop.simps [simp del]

definition skip_invalid :: "stream \<Rightarrow> char option \<times> stream" where
  "skip_invalid f = skip_invalid_loop None f"

text \<open>
  \<^verbatim>\<open>fscanf(logfile, "%10u", &acc_minlen)\<close>: white space is skipped, then an optional sign
  and decimal digits are read, at most 10 characters in all. The result is the value read
  (\<^verbatim>\<open>fscanf\<close> returns 1) or no value (it returns 0 or \<^verbatim>\<open>EOF\<close>); the stream stands behind
  what was consumed, and the indicator is set when the end was hit while reading. A value
  that does not fit an \<^verbatim>\<open>unsigned\<close> (more than \<open>2^32 - 1\<close>, or a negated one) is undefined
  behaviour in C: \<open>None\<close>.
\<close>

definition is_space :: "char \<Rightarrow> bool" where
  "is_space c = (c = CHR '' '' \<or> c = CHR 0x09 \<or> c = CHR 0x0A \<or> c = CHR 0x0B \<or> c = CHR 0x0C
                 \<or> c = CHR 0x0D)"

definition is_digit :: "char \<Rightarrow> bool" where
  "is_digit c = (48 \<le> (of_char c :: nat) \<and> (of_char c :: nat) \<le> 57)"

definition digit_val :: "char \<Rightarrow> nat" where
  "digit_val c = of_char c - 48"

definition decimal :: "char list \<Rightarrow> nat" where
  "decimal cs = foldl (\<lambda>v c. 10 * v + digit_val c) 0 cs"

definition scan_unsigned :: "stream \<Rightarrow> (nat option \<times> stream) option" where
  "scan_unsigned f =
     (let rest = dropWhile is_space (unread f) in
      if rest = [] then Some (None, f\<lparr>unread := [], at_eof := True\<rparr>)
      else
        let signed = (hd rest = CHR ''+'' \<or> hd rest = CHR ''-'');
            negative = (hd rest = CHR ''-'');
            body = (if signed then tl rest else rest);
            width = (if signed then 9 else 10);
            digits = takeWhile is_digit (take width body);
            after = drop (length digits) body;
            hit_end = (length digits < width \<and> after = [])
        in if digits = []
           then Some (None, f\<lparr>unread := after, at_eof := (at_eof f \<or> hit_end)\<rparr>)
           else if decimal digits > 4294967295 \<or> (negative \<and> decimal digits \<noteq> 0) then None
           else Some (Some (decimal digits),
                      f\<lparr>unread := after, at_eof := (at_eof f \<or> hit_end)\<rparr>))"

section \<open>input.c: the statics of the readers\<close>

text \<open>
  \<^verbatim>\<open>bitpos\<close>, \<^verbatim>\<open>dec_bp\<close>, \<^verbatim>\<open>buffer\<close> (here \<open>bitbuf\<close>), \<^verbatim>\<open>logfile\<close>, \<^verbatim>\<open>acc_minlen\<close>,
  \<^verbatim>\<open>cutoff\<close>, \<^verbatim>\<open>gb_res\<close>, the static \<^verbatim>\<open>read_acc_minlen\<close> of \<^verbatim>\<open>get_bit_file\<close>, the fields
  of \<^verbatim>\<open>bit\<close> and \<^verbatim>\<open>hw\<close> that the readers use (\<^verbatim>\<open>bit.t\<close> is \<open>bit_t\<close>, \<^verbatim>\<open>hw.freq\<close> is
  \<open>hw_freq\<close>), and the pin as \<^verbatim>\<open>get_pulse\<close> reads it: \<open>pulses s n\<close> is what call number \<open>n\<close>
  of \<^verbatim>\<open>get_pulse\<close> returns and \<open>pulse_calls\<close> counts the calls made (with \<^verbatim>\<open>NOLIVE\<close> every
  call returns 2). The static \<^verbatim>\<open>oldinch\<close> of \<^verbatim>\<open>get_bit_file\<close> is assigned before it is
  read in every call and is a local here. \<^verbatim>\<open>unsigned\<close> values are naturals below \<open>2^32\<close>.
  input.h is not among the sources: \<^verbatim>\<open>bit.t\<close> is \<^verbatim>\<open>unsigned\<close> (\<^verbatim>\<open>collect_pulses\<close> returns
  it as such), \<^verbatim>\<open>bit.tlow\<close> and \<^verbatim>\<open>bit.tlast0\<close> are \<^verbatim>\<open>int\<close> (they are assigned
  \<^verbatim>\<open>(int)bit.t\<close> and \<open>-1\<close>), and \<^verbatim>\<open>bit.realfreq\<close> is taken as a 64-bit integer (the spec:
  all filter math uses 64-bit integers).
\<close>

record input =
  bitpos :: int
  dec_bp :: nat
  bitbuf :: buffer
  logfile :: stream
  acc_minlen :: nat
  cutoff :: int
  gb_res :: GB_result
  read_acc_minlen :: bool
  bit_t :: nat
  bit_tlow :: int
  bit_tlast0 :: int
  bit_realfreq :: int
  bit_freq_reset :: bool
  hw_freq :: nat
  pulses :: "nat \<Rightarrow> int"
  pulse_calls :: nat

text \<open>The zero-initialised statics with a log file opened on the given text.\<close>

definition zero_GB_result :: GB_result where
  "zero_GB_result = \<lparr>bad_io = False, bitval = ebv_none, marker = emark_none, hwstat = ehw_ok,
                      done' = False, skip = False\<rparr>"

definition init_input :: "char list \<Rightarrow> input" where
  "init_input cs =
     \<lparr>bitpos = 0, dec_bp = 0, bitbuf = zero_buffer,
      logfile = \<lparr>unread = cs, at_eof = False\<rparr>, acc_minlen = 0, cutoff = 0,
      gb_res = zero_GB_result, read_acc_minlen = False, bit_t = 0, bit_tlow = 0,
      bit_tlast0 = 0, bit_realfreq = 0, bit_freq_reset = False, hw_freq = 0,
      pulses = (\<lambda>n. 2), pulse_calls = 0\<rparr>"

definition set_new_state :: "input \<Rightarrow> input" where
  "set_new_state s =
     (let s1 = (if \<not> skip (gb_res s) then s\<lparr>cutoff := - 1\<rparr> else s);
          g1 = (gb_res s1)\<lparr>bad_io := False, bitval := ebv_none\<rparr>;
          g2 = (if marker g1 \<noteq> emark_toolong \<and> marker g1 \<noteq> emark_late
                then g1\<lparr>marker := emark_none\<rparr> else g1)
      in s1\<lparr>gb_res := g2\<lparr>hwstat := ehw_ok, done' := False, skip := False\<rparr>\<rparr>)"

section \<open>input.c: get\_bit\_file\<close>

text \<open>The \<^verbatim>\<open>bitval\<close> of a digit character, as the conditional expression has it.\<close>

definition bitval_of :: "char \<Rightarrow> eGB_bitval" where
  "bitval_of c =
     (if c = CHR ''0'' then ebv_00 else if c = CHR ''1'' then ebv_10
      else if c = CHR ''2'' then ebv_01 else if c = CHR ''3'' then ebv_11
      else if c = CHR ''4'' then ebv_bom else ebv_none)"

text \<open>
  The \<^verbatim>\<open>switch (inch)\<close> for a character that is not \<^verbatim>\<open>EOF\<close>. \<^verbatim>\<open>buffer[bitpos] = ...\<close>
  is defined only for \<open>0 \<le> bitpos < BUFLEN\<close>.
\<close>

definition file_switch :: "char \<Rightarrow> input \<Rightarrow> input option" where
  "file_switch c s =
     (if c \<in> set ''01234'' then
        (if 0 \<le> bitpos s \<and> bitpos s < int BUFLEN then
           let g1 = (gb_res s)\<lparr>bitval := bitval_of c\<rparr>;
               g2 = (if c = CHR ''4'' then
                       (if marker g1 = emark_none then g1\<lparr>marker := emark_minute\<rparr>
                        else if marker g1 = emark_toolong then g1\<lparr>marker := emark_late\<rparr>
                        else g1)
                     else g1)
           in Some (s\<lparr>bitbuf := (bitbuf s)(nat (bitpos s) := int (of_char c) - 48),
                      gb_res := g2, bit_t := 1000\<rparr>)
         else None)
      else if c = CHR ''x'' then
        Some (s\<lparr>gb_res := (gb_res s)\<lparr>hwstat := ehw_transmit\<rparr>, bit_t := 1500\<rparr>)
      else if c = CHR ''r'' then
        Some (s\<lparr>gb_res := (gb_res s)\<lparr>hwstat := ehw_receive\<rparr>, bit_t := 1500\<rparr>)
      else if c = CHR ''#'' then
        Some (s\<lparr>gb_res := (gb_res s)\<lparr>hwstat := ehw_random\<rparr>, bit_t := 1500\<rparr>)
      else if c = CHR ''*'' then
        Some (s\<lparr>gb_res := (gb_res s)\<lparr>bad_io := True\<rparr>, bit_t := 0\<rparr>)
      else if c = CHR ''_'' then
        Some (s\<lparr>gb_res := (gb_res s)\<lparr>bitval := ebv_none\<rparr>, bit_t := 1000\<rparr>)
      else if c = CHR ''a'' then
        (case scan_unsigned (logfile s) of
           None \<Rightarrow> None
         | Some (None, f) \<Rightarrow>
             Some (s\<lparr>gb_res := (gb_res s)\<lparr>skip := True, done' := True\<rparr>, bit_t := 0,
                     logfile := f, read_acc_minlen := False\<rparr>)
         | Some (Some v, f) \<Rightarrow>
             Some (s\<lparr>gb_res := (gb_res s)\<lparr>skip := True\<rparr>, bit_t := 0, logfile := f,
                     acc_minlen := v, read_acc_minlen := (\<not> done' (gb_res s))\<rparr>))
      else Some s)"

text \<open>\<^verbatim>\<open>if (!read_acc_minlen) acc_minlen += bit.t;\<close> on \<^verbatim>\<open>unsigned\<close>.\<close>

definition add_bit_t :: "input \<Rightarrow> input" where
  "add_bit_t s =
     (if \<not> read_acc_minlen s then s\<lparr>acc_minlen := (acc_minlen s + bit_t s) mod 2 ^ 32\<rparr>
      else s)"

text \<open>
  Lines 676-686: the read-ahead of one character; \<open>oldinch\<close> is the character the switch
  handled.
\<close>

definition read_ahead :: "char \<Rightarrow> input \<Rightarrow> input" where
  "read_ahead oldinch s =
     (let r = skip_invalid (logfile s);
          s1 = (if \<not> at_eof (snd r) then
                  (if dec_bp s = 0 \<and> bitpos s > 0 \<and> oldinch \<noteq> CHR 0x0A \<and>
                      (fst r = Some (CHR 0x0A) \<or> fst r = Some (CHR ''a''))
                   then s\<lparr>dec_bp := 1\<rparr> else s)
                else s\<lparr>gb_res := (gb_res s)\<lparr>done' := True\<rparr>\<rparr>)
      in s1\<lparr>logfile := ungetc (fst r) (snd r)\<rparr>)"

text \<open>
  \<^verbatim>\<open>get_bit_file\<close>; the value returned is \<open>gb_res\<close> of the new state. \<open>None\<close> stands for
  undefined behaviour (a write outside the buffer, a scanned value that does not fit).
\<close>

definition get_bit_file :: "input \<Rightarrow> input option" where
  "get_bit_file s =
     (let s1 = set_new_state s;
          r = skip_invalid (logfile s1);
          s2 = s1\<lparr>logfile := snd r\<rparr>
      in case fst r of
           None \<Rightarrow> Some (s2\<lparr>gb_res := (gb_res s2)\<lparr>done' := True\<rparr>\<rparr>)
         | Some c \<Rightarrow> map_option (\<lambda>s3. read_ahead c (add_bit_t s3)) (file_switch c s2))"

section \<open>input.c: next\_bit and the accessors\<close>

definition next_bit :: "input \<Rightarrow> input" where
  "next_bit s =
     (let s1 = (if dec_bp s = 1 then s\<lparr>bitpos := bitpos s - 1, dec_bp := 2\<rparr> else s);
          s2 = (if marker (gb_res s1) = emark_minute \<or> marker (gb_res s1) = emark_late
                then s1\<lparr>bitpos := 1, dec_bp := 0\<rparr>
                else if \<not> skip (gb_res s1) then s1\<lparr>bitpos := bitpos s1 + 1\<rparr>
                else s1)
      in if bitpos s2 = int BUFLEN
         then s2\<lparr>gb_res := (gb_res s2)\<lparr>marker := emark_toolong\<rparr>, bitpos := 0\<rparr>
         else if marker (gb_res s2) = emark_toolong
         then s2\<lparr>gb_res := (gb_res s2)\<lparr>marker := emark_none\<rparr>\<rparr>
         else if marker (gb_res s2) = emark_late
         then s2\<lparr>gb_res := (gb_res s2)\<lparr>marker := emark_minute\<rparr>\<rparr>
         else s2)"

definition reset_acc_minlen :: "input \<Rightarrow> input" where
  "reset_acc_minlen s = s\<lparr>acc_minlen := 0\<rparr>"

text \<open>The character the next call of \<open>get_bit_file\<close> consumes (\<open>None\<close> at the end).\<close>

definition next_char :: "input \<Rightarrow> char option" where
  "next_char s = fst (skip_invalid (logfile s))"

text \<open>
  The states of the file reader: the statics after any sequence of calls of
  \<open>get_bit_file\<close>, \<open>next_bit\<close> and \<open>reset_acc_minlen\<close> on any log file.
\<close>

inductive reachable :: "input \<Rightarrow> bool" where
  start: "reachable (init_input cs)"
| after_get_bit_file: "reachable s \<Longrightarrow> get_bit_file s = Some s' \<Longrightarrow> reachable s'"
| after_next_bit: "reachable s \<Longrightarrow> reachable (next_bit s)"
| after_reset: "reachable s \<Longrightarrow> reachable (reset_acc_minlen s)"
section \<open>mainloop.c: check\_handle\_new\_minute\<close>

text \<open>
  setclock.c is not among the sources: \<^verbatim>\<open>setclock_ok\<close> and \<^verbatim>\<open>setclock\<close> are parameters, and
  so is the callback \<^verbatim>\<open>process_setclock_result\<close> (\<open>None\<close> is \<^verbatim>\<open>NULL\<close>). The callbacks
  \<^verbatim>\<open>display_minute\<close> and \<^verbatim>\<open>display_time\<close> only print and are left out.
\<close>

record hooks =
  setclock_ok :: "nat \<Rightarrow> DT_result \<Rightarrow> GB_result \<Rightarrow> bool"
  setclock :: "tm \<Rightarrow> eSC_status"
  process_setclock_result :: "(ML_result \<Rightarrow> int \<Rightarrow> ML_result) option"

text \<open>
  \<^verbatim>\<open>check_handle_new_minute\<close>: what it leaves in \<^verbatim>\<open>*mlr\<close>, \<^verbatim>\<open>*curtime\<close>, \<^verbatim>\<open>*init_min\<close>, the
  statics of the decoder and the statics of the readers. \<open>b\<close> is the parameter \<^verbatim>\<open>bit\<close>, \<open>bp\<close> is
  \<^verbatim>\<open>bitpos\<close> and \<open>ct\<close> is \<^verbatim>\<open>*curtime\<close>.
\<close>

definition check_handle_new_minute ::
  "calendar \<Rightarrow> hooks \<Rightarrow> GB_result \<Rightarrow> ML_result \<Rightarrow> int \<Rightarrow> tm \<Rightarrow> int \<Rightarrow> bool \<Rightarrow> nat \<Rightarrow>
   decoder \<Rightarrow> input \<Rightarrow> (ML_result \<times> tm \<times> nat \<times> decoder \<times> input) option" where
  "check_handle_new_minute cal h b mlr bp ct minlen was_toolong init_min st s =
     (if (marker b = emark_minute \<or> marker b = emark_late) \<and> \<not> was_toolong then
        (case decode_time_run cal st init_min minlen (acc_minlen s) (bitbuf s) ct of
           None \<Rightarrow> None
         | Some d \<Rightarrow>
             let mlr1 = (if settime mlr
                         then mlr\<lparr>settime_result :=
                                    (if setclock_ok h init_min (result d) b
                                     then setclock h (curtime d) else esc_unsafe)\<rparr>
                         else mlr);
                 s1 = (if marker b = emark_minute \<or> marker b = emark_late
                       then reset_acc_minlen s else s);
                 init_min1 = (if init_min > 0 then init_min - 1 else init_min);
                 mlr2 = (if settime mlr
                         then (case process_setclock_result h of
                                 None \<Rightarrow> mlr1
                               | Some f \<Rightarrow> f mlr1 bp)
                         else mlr1)
             in Some (mlr2, curtime d, init_min1, statics d, s1))
      else Some (mlr, ct, init_min, st, s))"

section \<open>input.c: collect\_pulses\<close>

text \<open>\<^verbatim>\<open>long long\<close> values, and the division of C, which truncates towards zero.\<close>

definition ll_ok :: "int \<Rightarrow> bool" where
  "ll_ok x = (- (2 ^ 63) \<le> x \<and> x < 2 ^ 63)"

definition tdiv :: "int \<Rightarrow> int \<Rightarrow> int" where
  "tdiv x y = sgn x * sgn y * (\<bar>x\<bar> div \<bar>y\<bar>)"

text \<open>
  \<^verbatim>\<open>reset_frequency\<close>. The character it prints to the log is left out. \<^verbatim>\<open>hw.freq\<close> is
  \<^verbatim>\<open>unsigned\<close>, so the product wraps at \<open>2^32\<close>.
\<close>

definition reset_frequency :: "input \<Rightarrow> input" where
  "reset_frequency s =
     s\<lparr>bit_realfreq := int ((hw_freq s * 1000000) mod 2 ^ 32), bit_freq_reset := True\<rparr>"

text \<open>Lines 366-367: the estimated frequency has left its rails.\<close>

definition off_rails :: "input \<Rightarrow> bool" where
  "off_rails s = (bit_realfreq s \<le> int ((hw_freq s * 500000) mod 2 ^ 32) \<or>
                  bit_realfreq s > int ((hw_freq s * 1000000) mod 2 ^ 32))"

text \<open>
  Line 372, \<^verbatim>\<open>bit.t > bit.realfreq * 1500000\<close>, compared as \<^verbatim>\<open>long long\<close>.
\<close>

definition timed_out :: "input \<Rightarrow> bool" where
  "timed_out s = (int (bit_t s) > bit_realfreq s * 1500000)"

text \<open>
  Lines 373-382. \<^verbatim>\<open>bit.tlow\<close> is an \<^verbatim>\<open>int\<close> and is compared with, and divided by,
  \<^verbatim>\<open>unsigned\<close> values, so it is converted to \<^verbatim>\<open>unsigned\<close> first.
\<close>

definition classify :: "input \<Rightarrow> eGB_hwstat" where
  "classify s =
     (if nat (bit_tlow s mod 2 ^ 32) \<le> hw_freq s div 20 then ehw_receive
      else if nat ((bit_tlow s * 100) mod 2 ^ 32) div bit_t s \<ge> 99 then ehw_transmit
      else ehw_random)"

text \<open>
  The \<^verbatim>\<open>for\<close> loop of \<^verbatim>\<open>collect_pulses\<close>, entered with \<^verbatim>\<open>bit.t\<close> set: \<open>a\<close> is the filter
  constant, \<open>y\<close> the filter value, \<open>stv\<close> the state of the trigger, \<open>init_bit\<close> and
  \<open>adj_freq\<close> what the two pointers refer to. The result is \<open>init_bit\<close>, \<open>adj_freq\<close> and
  the statics when the loop is left. \<open>None\<close> is undefined behaviour: a signed product or
  sum that does not fit its type, a division by zero. Left out: the packed copy of the
  samples in \<^verbatim>\<open>bit.signal\<close>, the local \<^verbatim>\<open>outch\<close> (assigned, never read), and the sleep
  until the next sample.
\<close>

function collect_loop ::
  "int \<Rightarrow> int \<Rightarrow> nat \<Rightarrow> int \<Rightarrow> bool \<Rightarrow> input \<Rightarrow> (int \<times> bool \<times> input) option" where
  "collect_loop a y stv init_bit adj_freq s =
     (if bit_t s < hw_freq s then
        let p = pulses s (pulse_calls s);
            s1 = s\<lparr>pulse_calls := pulse_calls s + 1\<rparr>
        in if p = 2 then Some (init_bit, adj_freq, s1\<lparr>gb_res := (gb_res s1)\<lparr>bad_io := True\<rparr>\<rparr>)
           else if \<not> int_ok (p * 1000000000) \<or> \<not> ll_ok (p * 1000000000 - y) \<or>
                   \<not> ll_ok (a * (p * 1000000000 - y)) \<or>
                   \<not> ll_ok (y + tdiv (a * (p * 1000000000 - y)) 1000000000)
           then None
           else
             let s2 = (if 0 \<le> y \<and> y < tdiv a 2 then s1\<lparr>bit_tlast0 := int (bit_t s1)\<rparr> else s1);
                 y1 = y + tdiv (a * (p * 1000000000 - y)) 1000000000;
                 s3 = (if off_rails s2 then reset_frequency s2 else s2);
                 adj1 = (if off_rails s2 then False else adj_freq)
             in if \<not> ll_ok (bit_realfreq s3 * 1500000) then None
                else if timed_out s3 then
                  (if bit_t s3 = 0 \<or> \<not> int_ok (bit_tlow s3 * 100) then None
                   else Some (init_bit, False, s3\<lparr>gb_res := (gb_res s3)\<lparr>hwstat := classify s3\<rparr>\<rparr>))
                else
                  let low = (y1 < 500000000 \<and> stv = 1);
                      y2 = (if low then 0 else y1);
                      stv1 = (if low then 0 else stv);
                      s4 = (if low then s3\<lparr>bit_tlow := int (bit_t s3)\<rparr> else s3)
                  in if y2 > 500000000 \<and> stv1 = 0
                     then Some (if init_bit = 2 then 1 else init_bit, adj1, s4)
                     else collect_loop a y2 stv1 init_bit adj1 (s4\<lparr>bit_t := bit_t s4 + 1\<rparr>)
      else Some (init_bit, adj_freq, s))"
  by pat_completeness auto
termination
  by (relation "measure (\<lambda>(a, y, stv, init_bit, adj_freq, s). hw_freq s - bit_t s)")
     (auto simp: reset_frequency_def Let_def split: if_splits)

declare collect_loop.simps [simp del]

text \<open>
  \<^verbatim>\<open>collect_pulses\<close> with the filter constant \<open>a\<close> as a parameter: the source computes it
  in floating point, \<^verbatim>\<open>1000000000 - (long long)(1000000000 * exp2(-20.0 / hw.freq))\<close>,
  which is \<open>750000000\<close> for \<^verbatim>\<open>hw.freq\<close> = 10. \<^verbatim>\<open>sec2\<close> is used for the sleep only, but its
  division is by \<^verbatim>\<open>hw.freq * hw.freq\<close> (\<^verbatim>\<open>unsigned\<close>), which must not be 0. The result is
  the value returned (\<^verbatim>\<open>bit.t\<close>), \<open>init_bit\<close>, \<open>adj_freq\<close> and the statics.
\<close>

definition collect_pulses ::
  "int \<Rightarrow> nat \<Rightarrow> int \<Rightarrow> bool \<Rightarrow> input \<Rightarrow> (nat \<times> int \<times> bool \<times> input) option" where
  "collect_pulses a start init_bit adj_freq s =
     (if (hw_freq s * hw_freq s) mod 2 ^ 32 = 0 then None
      else case collect_loop a 1000000000 1 init_bit adj_freq (s\<lparr>bit_t := start\<rparr>) of
             None \<Rightarrow> None
           | Some (ib, af, s1) \<Rightarrow>
               if bit_t s1 \<ge> hw_freq s1
               then let s2 = (if hwstat (gb_res s1) = ehw_ok
                              then s1\<lparr>gb_res := (gb_res s1)\<lparr>hwstat := ehw_random\<rparr>\<rparr> else s1)
                    in Some (bit_t s2, ib, False, reset_frequency s2)
               else Some (bit_t s1, ib, af, s1))"

text \<open>
  A receiver sampled 10 times a second whose estimated frequency has drifted to 5.2
  samples a second, on a pin that stays high.
\<close>

definition slow_receiver :: input where
  "slow_receiver = (init_input [])\<lparr>hw_freq := 10, bit_realfreq := 5200000, bit_tlow := - 1,
                                   bit_tlast0 := - 1, pulses := (\<lambda>n. 1)\<rparr>"

section \<open>Properties of getpar and getbcd\<close>

lemma and_one_int_cases: "(x::int) AND 1 = 0 \<or> x AND 1 = 1"
  by (simp add: and_one_eq) presburger

lemma getpar_loop_count:
  "stop < BUFLEN \<Longrightarrow>
   getpar_loop buffer i stop par = Some (par + int (count_A buffer i stop))"
proof (induction buffer i stop par rule: getpar_loop.induct)
  case (1 buffer i stop par)
  show ?case
  proof (cases "stop < i")
    case True
    then show ?thesis
      by (simp add: getpar_loop.simps [of buffer i stop par] count_A_def del: upt_Suc)
  next
    case False
    with "1.prems" have lt: "i < BUFLEN" by simp
    have upt: "[i..<Suc stop] = i # [Suc i..<Suc stop]"
      using False by (simp add: upt_conv_Cons)
    have step: "int (count_A buffer i stop) = (buffer i AND 1) + int (count_A buffer (Suc i) stop)"
      using and_one_int_cases [of "buffer i"] by (auto simp: count_A_def upt simp del: upt_Suc)
    have "getpar_loop buffer i stop par =
          getpar_loop buffer (Suc i) stop (par + (buffer i AND 1))"
      using False lt by (simp add: getpar_loop.simps [of buffer i stop par])
    also have "\<dots> = Some (par + (buffer i AND 1) + int (count_A buffer (Suc i) stop))"
      using "1.IH" [OF False _ "1.prems"] lt by simp
    finally show ?thesis using step by simp
  qed
qed

lemma odd_drop_bit_1_int: "odd (drop_bit 1 (x::int)) \<longleftrightarrow> x AND 2 \<noteq> 0"
proof -
  have "x AND 2 ^ 1 = 0 \<longleftrightarrow> \<not> bit x 1"
    by (rule and_exp_eq_0_iff_not_bit)
  then show ?thesis
    by (simp add: bit_iff_odd_drop_bit)
qed

lemma and_one_eq_one_iff_odd: "(y::int) AND 1 = 1 \<longleftrightarrow> odd y"
  by (simp add: and_one_eq mod_2_eq_odd)

lemma getbcd_loop_step:
  assumes "start \<le> Suc j" "Suc j < BUFLEN" "0 \<le> val" "val < 8" "mul = 1 \<or> mul = 2 \<or> mul = 4"
  shows "getbcd_loop buffer start (Suc j) mul val =
         getbcd_loop buffer start j (mul * 2) (val + mul * (buffer (Suc j) AND 1))"
  using assms and_one_int_cases [of "buffer (Suc j)"]
  by (subst getbcd_loop.simps) (auto simp: int_ok_def)

lemma getbcd_loop_step8:
  assumes "start \<le> i" "i < BUFLEN" "0 \<le> val" "val < 8"
  shows "getbcd_loop buffer start i 8 val =
         (if val + 8 * (buffer i AND 1) > 9 then Some 100
          else if i = 0 then None
          else getbcd_loop buffer start (i - 1) 10 (val + 8 * (buffer i AND 1)))"
proof -
  have ok: "int_ok (val + 8 * (buffer i AND 1))"
    using assms and_one_int_cases [of "buffer i"] by (auto simp: int_ok_def)
  show ?thesis
    using assms ok by (subst getbcd_loop.simps) (simp add: int_ok_def)
qed

lemma getbcd_loop_units:
  assumes "start \<le> j" "Suc (Suc (Suc j)) < BUFLEN"
  shows "getbcd_loop buffer start (Suc (Suc (Suc j))) 1 0 =
     (if nibble buffer (Suc (Suc (Suc j))) > 9 then Some 100
      else if j = 0 then None
      else getbcd_loop buffer start (j - 1) 10 (nibble buffer (Suc (Suc (Suc j)))))"
proof -
  define b0 where "b0 = buffer (Suc (Suc (Suc j))) AND 1"
  define b1 where "b1 = buffer (Suc (Suc j)) AND 1"
  define b2 where "b2 = buffer (Suc j) AND 1"
  define b3 where "b3 = buffer j AND 1"
  have c: "b0 = 0 \<or> b0 = 1" "b1 = 0 \<or> b1 = 1" "b2 = 0 \<or> b2 = 1" "b3 = 0 \<or> b3 = 1"
    unfolding b0_def b1_def b2_def b3_def by (rule and_one_int_cases)+
  have s1: "getbcd_loop buffer start (Suc (Suc (Suc j))) 1 0 =
            getbcd_loop buffer start (Suc (Suc j)) 2 b0"
    using getbcd_loop_step [of start "Suc (Suc j)" 0 1 buffer] assms by (simp add: b0_def)
  have s2: "getbcd_loop buffer start (Suc (Suc j)) 2 b0 =
            getbcd_loop buffer start (Suc j) 4 (b0 + 2 * b1)"
    using getbcd_loop_step [of start "Suc j" b0 2 buffer] assms c(1)
    by (auto simp: b1_def)
  have s3: "getbcd_loop buffer start (Suc j) 4 (b0 + 2 * b1) =
            getbcd_loop buffer start j 8 (b0 + 2 * b1 + 4 * b2)"
    using getbcd_loop_step [of start j "b0 + 2 * b1" 4 buffer] assms c(1,2)
    by (auto simp: b2_def)
  have n: "nibble buffer (Suc (Suc (Suc j))) = b0 + 2 * b1 + 4 * b2 + 8 * b3"
    by (simp add: nibble_def b0_def b1_def b2_def b3_def numeral_2_eq_2 numeral_3_eq_3)
  have s4: "getbcd_loop buffer start j 8 (b0 + 2 * b1 + 4 * b2) =
     (if nibble buffer (Suc (Suc (Suc j))) > 9 then Some 100
      else if j = 0 then None
      else getbcd_loop buffer start (j - 1) 10 (nibble buffer (Suc (Suc (Suc j)))))"
    using getbcd_loop_step8 [of start j "b0 + 2 * b1 + 4 * b2" buffer] assms c(1,2,3)
    by (auto simp: n b3_def [symmetric])
  show ?thesis
    by (simp only: s1 s2 s3 s4)
qed

lemma getbcd_units:
  assumes "start + 3 \<le> stop" "stop < BUFLEN"
  shows "getbcd buffer start stop =
     (if nibble buffer stop > 9 then Some 100
      else if stop = 3 then None
      else getbcd_loop buffer start (stop - 4) 10 (nibble buffer stop))"
proof -
  obtain j where j: "stop = Suc (Suc (Suc j))" "start \<le> j"
  proof -
    from assms(1) obtain k where "stop = start + 3 + k"
      using le_Suc_ex by blast
    then have "stop = Suc (Suc (Suc (start + k)))" "start \<le> start + k"
      by simp_all
    then show ?thesis using that by blast
  qed
  have "j - 1 = stop - 4" "(j = 0) = (stop = 3)"
    using j by auto
  then show ?thesis
    using getbcd_loop_units [of start j buffer] assms(2) j by (simp add: getbcd_def)
qed


lemma getbcd_loop_exit: "i < start \<Longrightarrow> getbcd_loop buffer start i mul val = Some val"
  by (subst getbcd_loop.simps) simp

lemma getbcd_loop_tens_step:
  assumes "start \<le> Suc j" "Suc j < BUFLEN" "0 \<le> val" "val \<le> 1000"
    and "mul = 10 \<or> mul = 20 \<or> mul = 40 \<or> mul = 80"
  shows "getbcd_loop buffer start (Suc j) mul val =
         getbcd_loop buffer start j (mul * 2) (val + mul * (buffer (Suc j) AND 1))"
  using assms and_one_int_cases [of "buffer (Suc j)"]
  by (subst getbcd_loop.simps) (auto simp: int_ok_def)

lemma getbcd_loop_tens4:
  assumes "start = Suc j" "Suc (Suc (Suc (Suc j))) < BUFLEN" "0 \<le> val" "val \<le> 9"
  shows "getbcd_loop buffer start (Suc (Suc (Suc (Suc j)))) 10 val =
         Some (val + 10 * nibble buffer (Suc (Suc (Suc (Suc j)))))"
proof -
  define b0 where "b0 = buffer (Suc (Suc (Suc (Suc j)))) AND 1"
  define b1 where "b1 = buffer (Suc (Suc (Suc j))) AND 1"
  define b2 where "b2 = buffer (Suc (Suc j)) AND 1"
  define b3 where "b3 = buffer (Suc j) AND 1"
  have c: "b0 = 0 \<or> b0 = 1" "b1 = 0 \<or> b1 = 1" "b2 = 0 \<or> b2 = 1" "b3 = 0 \<or> b3 = 1"
    unfolding b0_def b1_def b2_def b3_def by (rule and_one_int_cases)+
  have s1: "getbcd_loop buffer start (Suc (Suc (Suc (Suc j)))) 10 val =
            getbcd_loop buffer start (Suc (Suc (Suc j))) 20 (val + 10 * b0)"
    using getbcd_loop_tens_step [of start "Suc (Suc (Suc j))" val 10 buffer] assms
    by (simp add: b0_def)
  have s2: "getbcd_loop buffer start (Suc (Suc (Suc j))) 20 (val + 10 * b0) =
            getbcd_loop buffer start (Suc (Suc j)) 40 (val + 10 * b0 + 20 * b1)"
    using getbcd_loop_tens_step [of start "Suc (Suc j)" "val + 10 * b0" 20 buffer] assms c(1)
    by (auto simp: b1_def)
  have s3: "getbcd_loop buffer start (Suc (Suc j)) 40 (val + 10 * b0 + 20 * b1) =
            getbcd_loop buffer start (Suc j) 80 (val + 10 * b0 + 20 * b1 + 40 * b2)"
    using getbcd_loop_tens_step [of start "Suc j" "val + 10 * b0 + 20 * b1" 40 buffer]
      assms c(1,2)
    by (auto simp: b2_def)
  have s4: "getbcd_loop buffer start (Suc j) 80 (val + 10 * b0 + 20 * b1 + 40 * b2) =
            getbcd_loop buffer start j 160 (val + 10 * b0 + 20 * b1 + 40 * b2 + 80 * b3)"
    using getbcd_loop_tens_step [of start j "val + 10 * b0 + 20 * b1 + 40 * b2" 80 buffer]
      assms c(1,2,3)
    by (auto simp: b3_def)
  have s5: "getbcd_loop buffer start j 160 (val + 10 * b0 + 20 * b1 + 40 * b2 + 80 * b3) =
            Some (val + 10 * b0 + 20 * b1 + 40 * b2 + 80 * b3)"
    using assms(1) by (simp add: getbcd_loop_exit)
  have n: "nibble buffer (Suc (Suc (Suc (Suc j)))) = b0 + 2 * b1 + 4 * b2 + 8 * b3"
    by (simp add: nibble_def b0_def b1_def b2_def b3_def numeral_2_eq_2 numeral_3_eq_3)
  show ?thesis
    by (simp only: s1 s2 s3 s4 s5 n) simp
qed

lemma nibble_nonneg: "0 \<le> nibble buffer i"
  by (simp add: nibble_def)

lemma getbcd_two_digits:
  assumes "0 < start" "stop = start + 7" "stop < BUFLEN"
  shows "getbcd buffer start stop =
     (if nibble buffer stop > 9 then Some 100
      else Some (nibble buffer stop + 10 * nibble buffer (stop - 4)))"
proof -
  obtain j where j: "start = Suc j"
    using assms(1) by (cases start) auto
  have st: "stop - 4 = Suc (Suc (Suc (Suc j)))" "stop \<noteq> 3"
    using assms(2) j by simp_all
  have u: "getbcd buffer start stop =
     (if nibble buffer stop > 9 then Some 100
      else getbcd_loop buffer start (stop - 4) 10 (nibble buffer stop))"
    using getbcd_units [of start stop buffer] assms st(2) by simp
  show ?thesis
  proof (cases "nibble buffer stop > 9")
    case True
    then show ?thesis by (simp add: u)
  next
    case False
    have "getbcd_loop buffer start (stop - 4) 10 (nibble buffer stop) =
          Some (nibble buffer stop + 10 * nibble buffer (stop - 4))"
      unfolding st(1)
    proof (rule getbcd_loop_tens4)
      show "start = Suc j" by (rule j)
      show "Suc (Suc (Suc (Suc j))) < BUFLEN" using assms(2,3) j by simp
      show "0 \<le> nibble buffer stop" by (rule nibble_nonneg)
      show "nibble buffer stop \<le> 9" using False by simp
    qed
    then show ?thesis
      using False by (simp only: u if_False)
  qed
qed

lemma year_units_bad_nibble: "nibble year_units_bad 24 = 10"
  by (simp add: nibble_def year_units_bad_def zero_buffer_def)

lemma year_tens_bad_nibbles: "nibble year_tens_bad 20 = 10" "nibble year_tens_bad 24 = 5"
  by (simp_all add: nibble_def year_tens_bad_def zero_buffer_def)

lemma count_A_zero_buffer: "count_A zero_buffer start stop = 0"
  by (simp add: count_A_def zero_buffer_def)

lemma getpar_value:
  "stop < BUFLEN \<Longrightarrow> parity < BUFLEN \<Longrightarrow>
   getpar buffer start stop parity = Some (odd (count_A buffer start stop + B_bit buffer parity))"
  using odd_drop_bit_1_int [of "buffer parity"]
  by (auto simp add: getpar_def getpar_loop_count and_one_eq_one_iff_odd B_bit_def)

section \<open>C1: the parity of a field\<close>

text \<open>
  C1, as the code has it: for data bits \<open>start..stop\<close> and a parity position inside the
  array, \<open>getpar\<close> returns true exactly when the number of set A-bits among
  \<open>buffer[start..stop]\<close> plus the B-bit of \<open>buffer[parity]\<close> is odd (\<^verbatim>\<open>(par & 1) == 1\<close>).
\<close>

theorem getpar_odd_parity:
  "stop < BUFLEN \<Longrightarrow> parity < BUFLEN \<Longrightarrow>
   getpar buffer start stop parity = Some (odd (count_A buffer start stop + B_bit buffer parity))"
  by (rule getpar_value)

text \<open>The year field with one set A-bit and a clear parity bit: the sum is 1 and the result true.\<close>

theorem getpar_odd_parity_witness:
  "(24::nat) < BUFLEN \<and> (54::nat) < BUFLEN \<and> getpar (zero_buffer(17 := 1)) 17 24 54 = Some True"
  using getpar_odd_parity [of 24 54 "zero_buffer(17 := 1)" 17]
  by (simp add: BUFLEN_def count_A_def B_bit_def zero_buffer_def)

text \<open>
  C1 as stated (true exactly when the sum is even) fails on the all-zero buffer: the sum
  over the year field is 0, which is even, and \<open>getpar\<close> returns false.
\<close>

theorem getpar_even_counterexample:
  "even (count_A zero_buffer 17 24 + B_bit zero_buffer 54) \<and>
   getpar zero_buffer 17 24 54 = Some False"
  by (simp add: getpar_def getpar_loop_count count_A_zero_buffer B_bit_def BUFLEN_def)
     (simp add: zero_buffer_def)

section \<open>C4: the BCD sentinel\<close>

text \<open>
  C4, as the code has it: \<open>getbcd\<close> returns the sentinel 100 whenever the least
  significant 4-bit group (the units digit) of a field of at least four bits decodes to more
  than 9. No other group is tested (\<open>mul\<close> is 16 only once): for an 8-bit field inside the
  array whose units group \<open>u\<close> is at most 9 and whose tens group is \<open>t\<close>, the result is
  \<open>10 * t + u\<close>, whatever \<open>t\<close> is.
\<close>

theorem getbcd_units_sentinel:
  "(start + 3 \<le> stop \<and> stop < BUFLEN \<and> 9 < nibble buffer stop
      \<longrightarrow> getbcd buffer start stop = Some 100) \<and>
   (0 < start \<and> stop = start + 7 \<and> stop < BUFLEN \<and> nibble buffer stop \<le> 9
      \<longrightarrow> getbcd buffer start stop =
          Some (10 * nibble buffer (stop - 4) + nibble buffer stop))"
  using getbcd_units [of start stop buffer] getbcd_two_digits [of start stop buffer]
  by auto

text \<open>A year field with units group 1010 gives 100; one with tens 1010 and units 0101 gives 105.\<close>

theorem getbcd_units_sentinel_witness:
  "getbcd year_units_bad 17 24 = Some 100 \<and> getbcd year_tens_bad 17 24 = Some 105"
  using getbcd_units_sentinel [of 17 24 year_units_bad]
    getbcd_units_sentinel [of 17 24 year_tens_bad]
  by (simp add: year_tens_bad_nibbles year_units_bad_nibble BUFLEN_def)

text \<open>
  C4 as stated fails on a year field whose tens group is 1010 (more than 9) and whose units
  group is 0101: \<open>getbcd\<close> returns 105, not the sentinel 100.
\<close>

theorem getbcd_tens_counterexample:
  "9 < nibble year_tens_bad 20 \<and> getbcd year_tens_bad 17 24 = Some 105"
  using getbcd_two_digits [of 17 24 year_tens_bad]
  by (simp add: year_tens_bad_nibbles BUFLEN_def)

section \<open>The decoder reads inside the buffer and always returns\<close>

lemma getbcd_loop_tens_total:
  "0 < start \<Longrightarrow> i < BUFLEN \<Longrightarrow> i < start + n \<Longrightarrow> k + n \<le> 4 \<Longrightarrow> 0 \<le> val \<Longrightarrow>
   val + 200 * int n \<le> 1000 \<Longrightarrow> \<exists>v. getbcd_loop buffer start i (10 * 2 ^ k) val = Some v"
proof (induction n arbitrary: i k val)
  case 0
  then show ?case by (simp add: getbcd_loop_exit)
next
  case (Suc n)
  show ?case
  proof (cases "i < start")
    case True
    then show ?thesis by (simp add: getbcd_loop_exit)
  next
    case False
    define b where "b = buffer i AND 1"
    define mul :: int where "mul = 10 * 2 ^ k"
    have b: "b = 0 \<or> b = 1" unfolding b_def by (rule and_one_int_cases)
    have k: "k \<le> 3" using Suc.prems(4) by simp
    then have kc: "k = 0 \<or> k = 1 \<or> k = 2 \<or> k = 3" by arith
    have m: "mul \<le> 80" "0 < mul" "mul * 2 \<noteq> 16"
      unfolding mul_def using kc by auto
    have m2: "mul * 2 = 10 * 2 ^ Suc k"
      unfolding mul_def by simp
    have mb: "mul * b = 0 \<or> mul * b = mul"
      using b by auto
    have ipos: "i \<noteq> 0" using False Suc.prems(1) by simp
    have ok1: "int_ok (val + mul * b)"
      using mb m Suc.prems(5,6) by (auto simp: int_ok_def)
    have ok2: "int_ok (mul * 2)"
      using m by (auto simp: int_ok_def)
    have unf: "getbcd_loop buffer start i mul val =
               getbcd_loop buffer start (i - 1) (mul * 2) (val + mul * b)"
      using False Suc.prems(2) ipos ok1 ok2 m(3)
      by (subst getbcd_loop.simps) (simp add: b_def [symmetric])
    have "\<exists>v. getbcd_loop buffer start (i - 1) (10 * 2 ^ Suc k) (val + mul * b) = Some v"
    proof (rule Suc.IH)
      show "0 < start" by (rule Suc.prems(1))
      show "i - 1 < BUFLEN" using Suc.prems(2) by simp
      show "i - 1 < start + n" using Suc.prems(3) ipos by simp
      show "Suc k + n \<le> 4" using Suc.prems(4) by simp
      show "0 \<le> val + mul * b" using mb m Suc.prems(5) by auto
      show "val + mul * b + 200 * int n \<le> 1000" using mb m Suc.prems(6) by auto
    qed
    then have "\<exists>v. getbcd_loop buffer start i mul val = Some v"
      by (simp only: unf m2)
    then show ?thesis
      by (simp only: mul_def)
  qed
qed

lemma and_one_int_le: "(x::int) AND 1 \<le> 1"
  using and_one_int_cases [of x] by auto

lemma nibble_le_15: "nibble buffer i \<le> 15"
  unfolding nibble_def
  using and_one_int_le [of "buffer i"] and_one_int_le [of "buffer (i - 1)"]
    and_one_int_le [of "buffer (i - 2)"] and_one_int_le [of "buffer (i - 3)"]
  by linarith

lemma getbcd_total:
  assumes "0 < start" "start + 3 \<le> stop" "stop < start + 8" "stop < BUFLEN"
  shows "\<exists>v. getbcd buffer start stop = Some v"
proof (cases "nibble buffer stop > 9")
  case True
  then show ?thesis using getbcd_units [of start stop buffer] assms by simp
next
  case False
  have "stop \<noteq> 3" using assms by simp
  then have u: "getbcd buffer start stop =
      getbcd_loop buffer start (stop - 4) (10 * 2 ^ 0) (nibble buffer stop)"
    using getbcd_units [of start stop buffer] assms False by simp
  have "\<exists>v. getbcd_loop buffer start (stop - 4) (10 * 2 ^ 0) (nibble buffer stop) = Some v"
  proof (rule getbcd_loop_tens_total [where n = 4])
    show "0 < start" by (rule assms(1))
    show "stop - 4 < BUFLEN" using assms(4) by simp
    show "stop - 4 < start + 4" using assms(2,3) by simp
    show "0 + 4 \<le> (4::nat)" by simp
    show "0 \<le> nibble buffer stop" by (rule nibble_nonneg)
    show "nibble buffer stop + 200 * int 4 \<le> 1000" using False by simp
  qed
  then show ?thesis by (simp only: u)
qed

lemma getbcd_wday_total: "\<exists>v. getbcd buffer 36 38 = Some v"
proof -
  define b0 where "b0 = buffer 38 AND 1"
  define b1 where "b1 = buffer 37 AND 1"
  define b2 where "b2 = buffer 36 AND 1"
  have c: "b0 = 0 \<or> b0 = 1" "b1 = 0 \<or> b1 = 1" "b2 = 0 \<or> b2 = 1"
    unfolding b0_def b1_def b2_def by (rule and_one_int_cases)+
  have e: "(38::nat) = Suc 37" "(37::nat) = Suc 36" "(36::nat) = Suc 35" by simp_all
  have s1: "getbcd_loop buffer 36 38 1 0 = getbcd_loop buffer 36 37 2 b0"
    using getbcd_loop_step [of 36 37 0 1 buffer] by (simp add: b0_def BUFLEN_def)
  have s2: "getbcd_loop buffer 36 37 2 b0 = getbcd_loop buffer 36 36 4 (b0 + 2 * b1)"
    using getbcd_loop_step [of 36 36 b0 2 buffer] c(1) by (auto simp: b1_def BUFLEN_def)
  have s3: "getbcd_loop buffer 36 36 4 (b0 + 2 * b1) =
            getbcd_loop buffer 36 35 8 (b0 + 2 * b1 + 4 * b2)"
    using getbcd_loop_step [of 36 35 "b0 + 2 * b1" 4 buffer] c(1,2)
    by (auto simp: b2_def BUFLEN_def)
  have s4: "getbcd_loop buffer 36 35 8 (b0 + 2 * b1 + 4 * b2) = Some (b0 + 2 * b1 + 4 * b2)"
    by (simp add: getbcd_loop_exit)
  show ?thesis
    by (simp only: getbcd_def s1 s2 s3 s4) simp
qed

lemma calculate_date_time_Some:
  "\<exists>py y pm mo md pw wd ph h mi.
     getpar buffer 17 24 54 = Some py \<and> getbcd buffer 17 24 = Some y \<and>
     getpar buffer 25 35 55 = Some pm \<and> getbcd buffer 25 29 = Some mo \<and>
     getbcd buffer 30 35 = Some md \<and>
     getpar buffer 36 38 56 = Some pw \<and> getbcd buffer 36 38 = Some wd \<and>
     getpar buffer 39 51 57 = Some ph \<and> getbcd buffer 39 44 = Some h \<and>
     getbcd buffer 45 51 = Some mi \<and>
     calculate_date_time cal init_min errflags increase buffer time nt dt =
       Some (pack_errflags errflags
               (calc_blocks cal init_min errflags increase time nt dt py y pm mo md pw wd ph h mi),
             newtime (calc_blocks cal init_min errflags increase time nt dt py y pm mo md pw wd ph h mi),
             res (calc_blocks cal init_min errflags increase time nt dt py y pm mo md pw wd ph h mi))"
proof -
  obtain y where y: "getbcd buffer 17 24 = Some y"
    using getbcd_total [of 17 24 buffer] by (auto simp: BUFLEN_def)
  obtain mo where mo: "getbcd buffer 25 29 = Some mo"
    using getbcd_total [of 25 29 buffer] by (auto simp: BUFLEN_def)
  obtain md where md: "getbcd buffer 30 35 = Some md"
    using getbcd_total [of 30 35 buffer] by (auto simp: BUFLEN_def)
  obtain wd where wd: "getbcd buffer 36 38 = Some wd"
    using getbcd_wday_total [of buffer] by auto
  obtain h where h: "getbcd buffer 39 44 = Some h"
    using getbcd_total [of 39 44 buffer] by (auto simp: BUFLEN_def)
  obtain mi where mi: "getbcd buffer 45 51 = Some mi"
    using getbcd_total [of 45 51 buffer] by (auto simp: BUFLEN_def)
  have pars: "\<exists>p. getpar buffer 17 24 54 = Some p" "\<exists>p. getpar buffer 25 35 55 = Some p"
    "\<exists>p. getpar buffer 36 38 56 = Some p" "\<exists>p. getpar buffer 39 51 57 = Some p"
    by (simp_all add: getpar_value BUFLEN_def)
  then obtain py pm pw ph where p: "getpar buffer 17 24 54 = Some py"
    "getpar buffer 25 35 55 = Some pm" "getpar buffer 36 38 56 = Some pw"
    "getpar buffer 39 51 57 = Some ph"
    by blast
  show ?thesis
    by (simp add: calculate_date_time_def p y mo md wd h mi Let_def)
qed


lemma calc_year_flags:
  "p1 (calc_year i e inc p y c) = (p \<and> y \<le> 99)"
  "p2 (calc_year i e inc p y c) = p2 c"
  "p3 (calc_year i e inc p y c) = p3 c"
  "p4 (calc_year i e inc p y c) = p4 c"
  by (auto simp: calc_year_def Let_def)

lemma calc_year_res:
  "res (calc_year i e inc p y c) =
     (res c)\<lparr>year_status := (if \<not> p then eval_parity else if y > 99 then eval_bcd else eval_ok)\<rparr>"
  by (simp add: calc_year_def Let_def)

lemma calc_year_newtime:
  "newtime (calc_year i e inc p y c) =
     (newtime c)\<lparr>tm_year := (if adopt i e inc (p \<and> y \<le> 99) then y else tm_year (newtime c))\<rparr>"
  by (simp add: calc_year_def Let_def adopt_def)

lemma calc_month_mday_flags:
  "p1 (calc_month_mday i e inc p mo md time c) = p1 c"
  "p2 (calc_month_mday i e inc p mo md time c) =
     (p \<and> \<not> (mo = 0 \<or> mo > 12) \<and> \<not> (md = 0 \<or> md > 31))"
  "p3 (calc_month_mday i e inc p mo md time c) = p3 c"
  "p4 (calc_month_mday i e inc p mo md time c) = p4 c"
  by (auto simp: calc_month_mday_def Let_def)

lemma calc_month_mday_res:
  "res (calc_month_mday i e inc p mo md time c) =
     (res c)\<lparr>month_status :=
                (if \<not> p then eval_parity else if mo = 0 \<or> mo > 12 then eval_bcd
                 else if adopt i e inc (\<not> (md = 0 \<or> md > 31)) \<and> i = 0 \<and> tm_mon time \<noteq> mo
                 then eval_jump else eval_ok),
              mday_status :=
                (if \<not> p then eval_parity else if md = 0 \<or> md > 31 then eval_bcd
                 else if adopt i e inc (\<not> (mo = 0 \<or> mo > 12)) \<and> i = 0 \<and> tm_mday time \<noteq> md
                 then eval_jump else eval_ok)\<rparr>"
  by (simp add: calc_month_mday_def Let_def adopt_def)

lemma calc_month_mday_newtime:
  "newtime (calc_month_mday i e inc p mo md time c) =
     (newtime c)\<lparr>tm_mon :=
        (if adopt i e inc (p \<and> \<not> (mo = 0 \<or> mo > 12) \<and> \<not> (md = 0 \<or> md > 31))
         then mo else tm_mon (newtime c)),
       tm_mday :=
        (if adopt i e inc (p \<and> \<not> (mo = 0 \<or> mo > 12) \<and> \<not> (md = 0 \<or> md > 31))
         then md else tm_mday (newtime c))\<rparr>"
  by (simp add: calc_month_mday_def Let_def adopt_def)

lemma calc_wday_flags:
  "p1 (calc_wday i e inc p wd time c) = p1 c"
  "p2 (calc_wday i e inc p wd time c) = p2 c"
  "p3 (calc_wday i e inc p wd time c) = (p \<and> wd \<noteq> 7)"
  "p4 (calc_wday i e inc p wd time c) = p4 c"
  by (auto simp: calc_wday_def Let_def)

lemma calc_wday_res:
  "res (calc_wday i e inc p wd time c) =
     (res c)\<lparr>wday_status :=
                (if \<not> p then eval_parity else if wd = 7 then eval_bcd
                 else if adopt i e inc True \<and> i = 0 \<and> tm_wday time \<noteq> wd
                 then eval_jump else eval_ok)\<rparr>"
  by (simp add: calc_wday_def Let_def adopt_def)

lemma calc_wday_newtime:
  "newtime (calc_wday i e inc p wd time c) =
     (newtime c)\<lparr>tm_wday :=
        (if adopt i e inc (p \<and> wd \<noteq> 7) then wd else tm_wday (newtime c))\<rparr>"
  by (simp add: calc_wday_def Let_def adopt_def)

lemma calc_hour_minute_flags:
  "p1 (calc_hour_minute i e inc p h mi time c) = p1 c"
  "p2 (calc_hour_minute i e inc p h mi time c) = p2 c"
  "p3 (calc_hour_minute i e inc p h mi time c) = p3 c"
  "p4 (calc_hour_minute i e inc p h mi time c) = (p \<and> h \<le> 23 \<and> mi \<le> 59)"
  by (auto simp: calc_hour_minute_def Let_def)

lemma calc_hour_minute_res:
  "res (calc_hour_minute i e inc p h mi time c) =
     (res c)\<lparr>hour_status :=
                (if \<not> p then eval_parity else if h > 23 then eval_bcd
                 else if adopt i e inc (mi \<le> 59) \<and> i = 0 \<and> tm_hour time \<noteq> h
                 then eval_jump else eval_ok),
              minute_status :=
                (if \<not> p then eval_parity else if mi > 59 then eval_bcd
                 else if adopt i e inc (h \<le> 23) \<and> i = 0 \<and> tm_min time \<noteq> mi
                 then eval_jump else eval_ok)\<rparr>"
  by (simp add: calc_hour_minute_def Let_def adopt_def)

lemma calc_hour_minute_newtime:
  "newtime (calc_hour_minute i e inc p h mi time c) =
     (newtime c)\<lparr>tm_hour :=
        (if adopt i e inc (p \<and> h \<le> 23 \<and> mi \<le> 59) then h else tm_hour (newtime c)),
       tm_min :=
        (if adopt i e inc (p \<and> h \<le> 23 \<and> mi \<le> 59) then mi else tm_min (newtime c))\<rparr>"
  by (simp add: calc_hour_minute_def Let_def adopt_def)

lemma calc_century_flags:
  "p1 (calc_century cal i time c) =
     (p1 c \<and> century_offset cal (newtime c) \<noteq> - 1 \<and> \<not> mday_over cal (newtime c))"
  "p2 (calc_century cal i time c) =
     (p2 c \<and> (century_offset cal (newtime c) = - 1 \<or> \<not> mday_over cal (newtime c)))"
  "p3 (calc_century cal i time c) =
     (p3 c \<and> (century_offset cal (newtime c) = - 1 \<or> \<not> mday_over cal (newtime c)))"
  "p4 (calc_century cal i time c) = p4 c"
  by (auto simp: calc_century_def Let_def mday_over_def)

lemma calc_century_res:
  "res (calc_century cal i time c) =
     (res c)\<lparr>year_status :=
                (if century_offset cal (newtime c) = - 1 then eval_bcd
                 else if i = 0 \<and> tm_year time \<noteq>
                      base_year cal + 100 * century_offset cal (newtime c) + tm_year (newtime c)
                 then eval_jump else year_status (res c)),
              mday_status :=
                (if century_offset cal (newtime c) \<noteq> - 1 \<and> mday_over cal (newtime c)
                 then eval_bcd else mday_status (res c))\<rparr>"
  by (simp add: calc_century_def Let_def mday_over_def)

lemma calc_century_newtime:
  "newtime (calc_century cal i time c) =
     (newtime c)\<lparr>tm_year :=
        (if century_offset cal (newtime c) = - 1 then tm_year (newtime c)
         else tm_year (newtime c) + (base_year cal + 100 * century_offset cal (newtime c)))\<rparr>"
  by (simp add: calc_century_def Let_def)


lemma pack_errflags_low5:
  "e \<le> 1 \<Longrightarrow> (pack_errflags e c AND 0x1f = 0) = (e = 0 \<and> p1 c \<and> p2 c \<and> p3 c \<and> p4 c)"
proof -
  assume "e \<le> 1"
  then have "e = 0 \<or> e = 1" by arith
  then show ?thesis
    by (cases "p1 c"; cases "p2 c"; cases "p3 c"; cases "p4 c") (auto simp: pack_errflags_def)
qed

lemma check_time_sanity_fields:
  "leapsecond_status (snd (check_time_sanity minlen buffer dt)) = leapsecond_status dt"
  "dst_announce (snd (check_time_sanity minlen buffer dt)) = dst_announce dt"
  "dst_status (snd (check_time_sanity minlen buffer dt)) = eDST_ok"
  by (simp_all add: check_time_sanity_def Let_def)

lemma decode_time_run_fields:
  assumes "decode_time_run cal st i minlen acc buffer time = Some d"
  obtains py y pm mo md pw wd ph h mi c where
    "getpar buffer 17 24 54 = Some py" "getbcd buffer 17 24 = Some y"
    "getpar buffer 25 35 55 = Some pm" "getbcd buffer 25 29 = Some mo"
    "getbcd buffer 30 35 = Some md"
    "getpar buffer 36 38 56 = Some pw" "getbcd buffer 36 38 = Some wd"
    "getpar buffer 39 51 57 = Some ph" "getbcd buffer 39 44 = Some h"
    "getbcd buffer 45 51 = Some mi"
    "c = calc_blocks cal i (errflags0 minlen buffer (dt_res st)) (increased d) (advanced d)
           (zero_tm\<lparr>tm_isdst := (if i = 2 then - 1 else tm_isdst time)\<rparr>)
           (snd (check_time_sanity minlen buffer (dt_res st))) py y pm mo md pw wd ph h mi"
    "result d = res c" "candidate d = newtime c"
    "flags d = pack_errflags (errflags0 minlen buffer (dt_res st)) c"
    "curtime d = stamp_date_time (flags d) (candidate d) (advanced d) (result d)"
    "(increased d, advanced d, acc_minlen_partial (statics d)) =
       increase_old_time cal i minlen acc (if i = 2 then time\<lparr>tm_isdst := - 1\<rparr> else time)
         (dst_announce (dt_res st)) (acc_minlen_partial st)"
proof -
  define time0 where "time0 = (if i = 2 then time\<lparr>tm_isdst := - 1\<rparr> else time)"
  define dt1 where "dt1 = snd (check_time_sanity minlen buffer (dt_res st))"
  define e0 where "e0 = errflags0 minlen buffer (dt_res st)"
  define io where "io = increase_old_time cal i minlen acc time0 (dst_announce dt1)
                          (acc_minlen_partial st)"
  define nt0 where "nt0 = zero_tm\<lparr>tm_isdst := tm_isdst time0\<rparr>"
  obtain py y pm mo md pw wd ph h mi where v:
    "getpar buffer 17 24 54 = Some py" "getbcd buffer 17 24 = Some y"
    "getpar buffer 25 35 55 = Some pm" "getbcd buffer 25 29 = Some mo"
    "getbcd buffer 30 35 = Some md"
    "getpar buffer 36 38 56 = Some pw" "getbcd buffer 36 38 = Some wd"
    "getpar buffer 39 51 57 = Some ph" "getbcd buffer 39 44 = Some h"
    "getbcd buffer 45 51 = Some mi"
    and cdt: "calculate_date_time cal i e0 (fst io) buffer (fst (snd io)) nt0 dt1 =
       Some (pack_errflags e0
               (calc_blocks cal i e0 (fst io) (fst (snd io)) nt0 dt1 py y pm mo md pw wd ph h mi),
             newtime (calc_blocks cal i e0 (fst io) (fst (snd io)) nt0 dt1 py y pm mo md pw wd ph h mi),
             res (calc_blocks cal i e0 (fst io) (fst (snd io)) nt0 dt1 py y pm mo md pw wd ph h mi))"
    using calculate_date_time_Some [of buffer cal i e0 "fst io" "fst (snd io)" nt0 dt1]
    by blast
  define c where "c = calc_blocks cal i e0 (fst io) (fst (snd io)) nt0 dt1 py y pm mo md pw wd ph h mi"
  have d: "result d = res c" "candidate d = newtime c" "flags d = pack_errflags e0 c"
    "curtime d = stamp_date_time (pack_errflags e0 c) (newtime c) (fst (snd io)) (res c)"
    "increased d = fst io" "advanced d = fst (snd io)"
    "acc_minlen_partial (statics d) = snd (snd io)"
    using assms cdt
    by (auto simp add: decode_time_run_def Let_def case_prod_beta time0_def [symmetric]
        dt1_def [symmetric] e0_def [symmetric] errflags0_def [symmetric] io_def [symmetric]
        nt0_def [symmetric] c_def [symmetric])
  have t0: "tm_isdst time0 = (if i = 2 then - 1 else tm_isdst time)"
    by (simp add: time0_def)
  show ?thesis
  proof (rule that [of py y pm mo md pw wd ph h mi c])
    show "c = calc_blocks cal i (errflags0 minlen buffer (dt_res st)) (increased d) (advanced d)
           (zero_tm\<lparr>tm_isdst := (if i = 2 then - 1 else tm_isdst time)\<rparr>)
           (snd (check_time_sanity minlen buffer (dt_res st))) py y pm mo md pw wd ph h mi"
      by (simp add: c_def d e0_def nt0_def dt1_def t0)
    show "(increased d, advanced d, acc_minlen_partial (statics d)) =
       increase_old_time cal i minlen acc (if i = 2 then time\<lparr>tm_isdst := - 1\<rparr> else time)
         (dst_announce (dt_res st)) (acc_minlen_partial st)"
      by (simp add: d io_def time0_def dt1_def check_time_sanity_fields)
  qed (simp_all add: v d e0_def)
qed

lemma decode_time_run_total:
  "\<exists>d. decode_time_run cal st i minlen acc buffer time = Some d"
proof -
  define time0 where "time0 = (if i = 2 then time\<lparr>tm_isdst := - 1\<rparr> else time)"
  define dt1 where "dt1 = snd (check_time_sanity minlen buffer (dt_res st))"
  define e0 where "e0 = errflags0 minlen buffer (dt_res st)"
  define io where "io = increase_old_time cal i minlen acc time0 (dst_announce dt1)
                          (acc_minlen_partial st)"
  define nt0 where "nt0 = zero_tm\<lparr>tm_isdst := tm_isdst time0\<rparr>"
  obtain r where "calculate_date_time cal i e0 (fst io) buffer (fst (snd io)) nt0 dt1 = Some r"
    using calculate_date_time_Some [of buffer cal i e0 "fst io" "fst (snd io)" nt0 dt1]
    by blast
  then show ?thesis
    by (cases r)
       (simp add: decode_time_run_def Let_def case_prod_beta time0_def [symmetric]
        dt1_def [symmetric] e0_def [symmetric] errflags0_def [symmetric] io_def [symmetric]
        nt0_def [symmetric])
qed

section \<open>The decoder in closed form\<close>

lemmas block_eqs = calc_year_flags calc_year_res calc_year_newtime
  calc_month_mday_flags calc_month_mday_res calc_month_mday_newtime
  calc_wday_flags calc_wday_res calc_wday_newtime
  calc_century_flags calc_century_res calc_century_newtime
  calc_hour_minute_flags calc_hour_minute_res calc_hour_minute_newtime

lemma errflags0_le: "errflags0 minlen buffer dt \<le> 1"
  by (simp add: errflags0_def)

lemma stamp_commit:
  "minute_length dt = emin_ok \<Longrightarrow> e AND 0x1f = 0 \<Longrightarrow>
   tm_min (stamp_date_time e nt t dt) = tm_min nt \<and>
   tm_hour (stamp_date_time e nt t dt) = tm_hour nt \<and>
   tm_mday (stamp_date_time e nt t dt) = tm_mday nt \<and>
   tm_mon (stamp_date_time e nt t dt) = tm_mon nt \<and>
   tm_year (stamp_date_time e nt t dt) = tm_year nt \<and>
   tm_wday (stamp_date_time e nt t dt) = tm_wday nt"
  by (simp add: stamp_date_time_def Let_def)

lemma stamp_no_commit:
  "\<not> (minute_length dt = emin_ok \<and> e AND 0x1f = 0) \<Longrightarrow> stamp_date_time e nt t dt = t"
  by (auto simp add: stamp_date_time_def Let_def)

lemma zero_tm_fields:
  "tm_min zero_tm = 0" "tm_hour zero_tm = 0" "tm_mday zero_tm = 0" "tm_mon zero_tm = 0"
  "tm_year zero_tm = 0" "tm_wday zero_tm = 0" "tm_isdst zero_tm = 0"
  by (simp_all add: zero_tm_def)

lemma calc_dates_flags:
  "p1 (calc_dates i e inc time nt dt py y pm mo md pw wd) = (py \<and> y \<le> 99)"
  "p2 (calc_dates i e inc time nt dt py y pm mo md pw wd) =
     (pm \<and> \<not> (mo = 0 \<or> mo > 12) \<and> \<not> (md = 0 \<or> md > 31))"
  "p3 (calc_dates i e inc time nt dt py y pm mo md pw wd) = (pw \<and> wd \<noteq> 7)"
  by (simp_all add: calc_dates_def block_eqs)

lemma calc_dates_newtime:
  "newtime (calc_dates i e inc time nt dt py y pm mo md pw wd) =
     nt\<lparr>tm_year := (if adopt i e inc (py \<and> y \<le> 99) then y else tm_year nt),
        tm_mon := (if adopt i e inc (pm \<and> \<not> (mo = 0 \<or> mo > 12) \<and> \<not> (md = 0 \<or> md > 31))
                   then mo else tm_mon nt),
        tm_mday := (if adopt i e inc (pm \<and> \<not> (mo = 0 \<or> mo > 12) \<and> \<not> (md = 0 \<or> md > 31))
                    then md else tm_mday nt),
        tm_wday := (if adopt i e inc (pw \<and> wd \<noteq> 7) then wd else tm_wday nt)\<rparr>"
  by (simp add: calc_dates_def block_eqs)

lemma calc_dates_res:
  "year_status (res (calc_dates i e inc time nt dt py y pm mo md pw wd)) =
     (if \<not> py then eval_parity else if y > 99 then eval_bcd else eval_ok)"
  "month_status (res (calc_dates i e inc time nt dt py y pm mo md pw wd)) =
       (if \<not> pm then eval_parity else if mo = 0 \<or> mo > 12 then eval_bcd
        else if adopt i e inc (\<not> (md = 0 \<or> md > 31)) \<and> i = 0 \<and> tm_mon time \<noteq> mo
        then eval_jump else eval_ok)"
  "mday_status (res (calc_dates i e inc time nt dt py y pm mo md pw wd)) =
       (if \<not> pm then eval_parity else if md = 0 \<or> md > 31 then eval_bcd
        else if adopt i e inc (\<not> (mo = 0 \<or> mo > 12)) \<and> i = 0 \<and> tm_mday time \<noteq> md
        then eval_jump else eval_ok)"
  "wday_status (res (calc_dates i e inc time nt dt py y pm mo md pw wd)) =
       (if \<not> pw then eval_parity else if wd = 7 then eval_bcd
        else if adopt i e inc True \<and> i = 0 \<and> tm_wday time \<noteq> wd
        then eval_jump else eval_ok)"
  "leapsecond_status (res (calc_dates i e inc time nt dt py y pm mo md pw wd)) =
     leapsecond_status dt"
  by (simp_all add: calc_dates_def block_eqs)

lemma decode_closed_form:
  fixes cal :: calendar and st :: decoder and i :: nat and buffer :: buffer and time :: tm
    and minlen :: int and acc :: nat and d :: decoded
  defines "py \<equiv> the (getpar buffer 17 24 54)" and "y \<equiv> the (getbcd buffer 17 24)"
    and "pm \<equiv> the (getpar buffer 25 35 55)" and "mo \<equiv> the (getbcd buffer 25 29)"
    and "md \<equiv> the (getbcd buffer 30 35)"
    and "pw \<equiv> the (getpar buffer 36 38 56)" and "wd \<equiv> the (getbcd buffer 36 38)"
    and "ph \<equiv> the (getpar buffer 39 51 57)" and "h \<equiv> the (getbcd buffer 39 44)"
    and "mi \<equiv> the (getbcd buffer 45 51)"
    and "e0 \<equiv> errflags0 minlen buffer (dt_res st)"
  defines "nt3 \<equiv> newtime (calc_dates i e0 (increased d) (advanced d)
                     (zero_tm\<lparr>tm_isdst := (if i = 2 then - 1 else tm_isdst time)\<rparr>)
                     (snd (check_time_sanity minlen buffer (dt_res st)))
                     py y pm mo md pw wd)"
  defines "co \<equiv> century_offset cal nt3"
  assumes run: "decode_time_run cal st i minlen acc buffer time = Some d"
  shows "(flags d AND 0x1f = 0) =
       (e0 = 0 \<and> (py \<and> y \<le> 99 \<and> co \<noteq> - 1 \<and> \<not> mday_over cal nt3)
        \<and> (pm \<and> \<not> (mo = 0 \<or> mo > 12) \<and> \<not> (md = 0 \<or> md > 31)
             \<and> (co = - 1 \<or> \<not> mday_over cal nt3))
        \<and> (pw \<and> wd \<noteq> 7 \<and> (co = - 1 \<or> \<not> mday_over cal nt3))
        \<and> (ph \<and> h \<le> 23 \<and> mi \<le> 59))"
    and "year_status (result d) =
       (if co = - 1 then eval_bcd
        else if i = 0 \<and> tm_year (advanced d) \<noteq> base_year cal + 100 * co + tm_year nt3
        then eval_jump
        else if \<not> py then eval_parity else if y > 99 then eval_bcd else eval_ok)"
    and "month_status (result d) =
       (if \<not> pm then eval_parity else if mo = 0 \<or> mo > 12 then eval_bcd
        else if adopt i e0 (increased d) (\<not> (md = 0 \<or> md > 31)) \<and> i = 0
                \<and> tm_mon (advanced d) \<noteq> mo
        then eval_jump else eval_ok)"
    and "mday_status (result d) =
       (if co \<noteq> - 1 \<and> mday_over cal nt3 then eval_bcd
        else if \<not> pm then eval_parity else if md = 0 \<or> md > 31 then eval_bcd
        else if adopt i e0 (increased d) (\<not> (mo = 0 \<or> mo > 12)) \<and> i = 0
                \<and> tm_mday (advanced d) \<noteq> md
        then eval_jump else eval_ok)"
    and "wday_status (result d) =
       (if \<not> pw then eval_parity else if wd = 7 then eval_bcd
        else if adopt i e0 (increased d) True \<and> i = 0 \<and> tm_wday (advanced d) \<noteq> wd
        then eval_jump else eval_ok)"
    and "hour_status (result d) =
       (if \<not> ph then eval_parity else if h > 23 then eval_bcd
        else if adopt i e0 (increased d) (mi \<le> 59) \<and> i = 0 \<and> tm_hour (advanced d) \<noteq> h
        then eval_jump else eval_ok)"
    and "minute_status (result d) =
       (if \<not> ph then eval_parity else if mi > 59 then eval_bcd
        else if adopt i e0 (increased d) (h \<le> 23) \<and> i = 0 \<and> tm_min (advanced d) \<noteq> mi
        then eval_jump else eval_ok)"
    and "candidate d =
       nt3\<lparr>tm_year := (if co = - 1 then tm_year nt3
                        else tm_year nt3 + (base_year cal + 100 * co)),
           tm_hour := (if adopt i e0 (increased d) (ph \<and> h \<le> 23 \<and> mi \<le> 59) then h else 0),
           tm_min := (if adopt i e0 (increased d) (ph \<and> h \<le> 23 \<and> mi \<le> 59) then mi else 0)\<rparr>"
    and "leapsecond_status (result d) = leapsecond_status (dt_res st)"
    and "tm_isdst (candidate d) = (if i = 2 then - 1 else tm_isdst time)"
    and "flags d AND 0x1f = 0 \<Longrightarrow>
         ok_or_jump i (minute_status (result d)) \<and> ok_or_jump i (hour_status (result d)) \<and>
         ok_or_jump i (mday_status (result d)) \<and> ok_or_jump i (wday_status (result d)) \<and>
         ok_or_jump i (month_status (result d)) \<and> ok_or_jump i (year_status (result d))"
    and "flags d AND 0x1f = 0 \<Longrightarrow> i = 0 \<Longrightarrow> increased d \<noteq> 0 \<Longrightarrow>
         getbcd buffer 25 29 = Some (tm_mon (candidate d)) \<and>
         getbcd buffer 30 35 = Some (tm_mday (candidate d)) \<and>
         getbcd buffer 36 38 = Some (tm_wday (candidate d)) \<and>
         getbcd buffer 39 44 = Some (tm_hour (candidate d)) \<and>
         getbcd buffer 45 51 = Some (tm_min (candidate d))"
    and "flags d AND 0x1f = 0 \<Longrightarrow> i = 0 \<Longrightarrow> increased d \<noteq> 0 \<Longrightarrow>
         year_status (result d) =
           (if tm_year (candidate d) \<noteq> tm_year (advanced d) then eval_jump else eval_ok) \<and>
         month_status (result d) =
           (if tm_mon (candidate d) \<noteq> tm_mon (advanced d) then eval_jump else eval_ok) \<and>
         mday_status (result d) =
           (if tm_mday (candidate d) \<noteq> tm_mday (advanced d) then eval_jump else eval_ok) \<and>
         wday_status (result d) =
           (if tm_wday (candidate d) \<noteq> tm_wday (advanced d) then eval_jump else eval_ok) \<and>
         hour_status (result d) =
           (if tm_hour (candidate d) \<noteq> tm_hour (advanced d) then eval_jump else eval_ok) \<and>
         minute_status (result d) =
           (if tm_min (candidate d) \<noteq> tm_min (advanced d) then eval_jump else eval_ok)"
proof -
  from run obtain py' y' pm' mo' md' pw' wd' ph' h' mi' c where
    v: "getpar buffer 17 24 54 = Some py'" "getbcd buffer 17 24 = Some y'"
    "getpar buffer 25 35 55 = Some pm'" "getbcd buffer 25 29 = Some mo'"
    "getbcd buffer 30 35 = Some md'"
    "getpar buffer 36 38 56 = Some pw'" "getbcd buffer 36 38 = Some wd'"
    "getpar buffer 39 51 57 = Some ph'" "getbcd buffer 39 44 = Some h'"
    "getbcd buffer 45 51 = Some mi'"
    and c': "c = calc_blocks cal i (errflags0 minlen buffer (dt_res st)) (increased d) (advanced d)
           (zero_tm\<lparr>tm_isdst := (if i = 2 then - 1 else tm_isdst time)\<rparr>)
           (snd (check_time_sanity minlen buffer (dt_res st))) py' y' pm' mo' md' pw' wd' ph' h' mi'"
    and r: "result d = res c" and n: "candidate d = newtime c"
    and f: "flags d = pack_errflags (errflags0 minlen buffer (dt_res st)) c"
    by (rule decode_time_run_fields)
  have vs: "py' = py" "y' = y" "pm' = pm" "mo' = mo" "md' = md" "pw' = pw" "wd' = wd"
    "ph' = ph" "h' = h" "mi' = mi"
    by (simp_all add: v py_def y_def pm_def mo_def md_def pw_def wd_def ph_def h_def mi_def)
  note c = c' [unfolded vs]
  define c3 where "c3 = calc_dates i e0 (increased d) (advanced d)
                     (zero_tm\<lparr>tm_isdst := (if i = 2 then - 1 else tm_isdst time)\<rparr>)
                     (snd (check_time_sanity minlen buffer (dt_res st)))
                     py y pm mo md pw wd"
  have c5: "c = calc_hour_minute i e0 (increased d) ph h mi (advanced d)
                 (calc_century cal i (advanced d) c3)"
    by (simp add: c calc_blocks_def c3_def e0_def)
  have nt3: "newtime c3 = nt3"
    by (simp add: nt3_def c3_def)
  have p3: "p1 c3 = (py \<and> y \<le> 99)"
    "p2 c3 = (pm \<and> \<not> (mo = 0 \<or> mo > 12) \<and> \<not> (md = 0 \<or> md > 31))"
    "p3 c3 = (pw \<and> wd \<noteq> 7)"
    by (simp_all add: c3_def calc_dates_flags)
  note r3 = calc_dates_res [of i e0 "increased d" "advanced d"
      "zero_tm\<lparr>tm_isdst := (if i = 2 then - 1 else tm_isdst time)\<rparr>"
      "snd (check_time_sanity minlen buffer (dt_res st))" py y pm mo md pw wd,
      folded c3_def]
  have tm3: "tm_hour nt3 = 0" "tm_min nt3 = 0"
    by (simp_all add: nt3_def calc_dates_newtime zero_tm_fields)
  have "e0 \<le> 1" by (simp add: e0_def errflags0_def)
  then have fl: "(flags d AND 0x1f = 0) =
       (e0 = 0 \<and> (py \<and> y \<le> 99 \<and> co \<noteq> - 1 \<and> \<not> mday_over cal nt3)
        \<and> (pm \<and> \<not> (mo = 0 \<or> mo > 12) \<and> \<not> (md = 0 \<or> md > 31)
             \<and> (co = - 1 \<or> \<not> mday_over cal nt3))
        \<and> (pw \<and> wd \<noteq> 7 \<and> (co = - 1 \<or> \<not> mday_over cal nt3))
        \<and> (ph \<and> h \<le> 23 \<and> mi \<le> 59))"
    by (simp add: f e0_def [symmetric] pack_errflags_low5 c5 block_eqs p3 nt3
        co_def [symmetric])
  have ys: "year_status (result d) =
       (if co = - 1 then eval_bcd
        else if i = 0 \<and> tm_year (advanced d) \<noteq> base_year cal + 100 * co + tm_year nt3
        then eval_jump
        else if \<not> py then eval_parity else if y > 99 then eval_bcd else eval_ok)"
    by (simp add: r c5 block_eqs r3 nt3 co_def [symmetric])
  have mds: "mday_status (result d) =
       (if co \<noteq> - 1 \<and> mday_over cal nt3 then eval_bcd
        else if \<not> pm then eval_parity else if md = 0 \<or> md > 31 then eval_bcd
        else if adopt i e0 (increased d) (\<not> (mo = 0 \<or> mo > 12)) \<and> i = 0
                \<and> tm_mday (advanced d) \<noteq> md
        then eval_jump else eval_ok)"
    by (simp add: r c5 block_eqs r3 nt3 co_def [symmetric])
  have cand: "candidate d =
       nt3\<lparr>tm_year := (if co = - 1 then tm_year nt3
                        else tm_year nt3 + (base_year cal + 100 * co)),
           tm_hour := (if adopt i e0 (increased d) (ph \<and> h \<le> 23 \<and> mi \<le> 59) then h else 0),
           tm_min := (if adopt i e0 (increased d) (ph \<and> h \<le> 23 \<and> mi \<le> 59) then mi else 0)\<rparr>"
    by (simp add: n c5 block_eqs nt3 co_def [symmetric] tm3)
  have leap: "leapsecond_status (result d) = leapsecond_status (dt_res st)"
    by (simp add: r c5 block_eqs r3 check_time_sanity_fields)
  have mos: "month_status (result d) =
       (if \<not> pm then eval_parity else if mo = 0 \<or> mo > 12 then eval_bcd
        else if adopt i e0 (increased d) (\<not> (md = 0 \<or> md > 31)) \<and> i = 0
                \<and> tm_mon (advanced d) \<noteq> mo
        then eval_jump else eval_ok)"
    by (simp add: r c5 block_eqs r3)
  have wds: "wday_status (result d) =
       (if \<not> pw then eval_parity else if wd = 7 then eval_bcd
        else if adopt i e0 (increased d) True \<and> i = 0 \<and> tm_wday (advanced d) \<noteq> wd
        then eval_jump else eval_ok)"
    by (simp add: r c5 block_eqs r3)
  have hs: "hour_status (result d) =
       (if \<not> ph then eval_parity else if h > 23 then eval_bcd
        else if adopt i e0 (increased d) (mi \<le> 59) \<and> i = 0 \<and> tm_hour (advanced d) \<noteq> h
        then eval_jump else eval_ok)"
    by (simp add: r c5 block_eqs)
  have mis: "minute_status (result d) =
       (if \<not> ph then eval_parity else if mi > 59 then eval_bcd
        else if adopt i e0 (increased d) (h \<le> 23) \<and> i = 0 \<and> tm_min (advanced d) \<noteq> mi
        then eval_jump else eval_ok)"
    by (simp add: r c5 block_eqs)
  have nt3f: "tm_isdst nt3 = (if i = 2 then - 1 else tm_isdst time)"
    "tm_year nt3 = (if adopt i e0 (increased d) (py \<and> y \<le> 99) then y else 0)"
    "tm_mon nt3 = (if adopt i e0 (increased d)
                       (pm \<and> \<not> (mo = 0 \<or> mo > 12) \<and> \<not> (md = 0 \<or> md > 31)) then mo else 0)"
    "tm_mday nt3 = (if adopt i e0 (increased d)
                       (pm \<and> \<not> (mo = 0 \<or> mo > 12) \<and> \<not> (md = 0 \<or> md > 31)) then md else 0)"
    "tm_wday nt3 = (if adopt i e0 (increased d) (pw \<and> wd \<noteq> 7) then wd else 0)"
    by (simp_all add: nt3_def calc_dates_newtime zero_tm_fields)
  have bcd: "getbcd buffer 25 29 = Some mo" "getbcd buffer 30 35 = Some md"
    "getbcd buffer 36 38 = Some wd" "getbcd buffer 39 44 = Some h"
    "getbcd buffer 45 51 = Some mi"
    by (simp_all add: v vs)
  show "(flags d AND 0x1f = 0) =
       (e0 = 0 \<and> (py \<and> y \<le> 99 \<and> co \<noteq> - 1 \<and> \<not> mday_over cal nt3)
        \<and> (pm \<and> \<not> (mo = 0 \<or> mo > 12) \<and> \<not> (md = 0 \<or> md > 31)
             \<and> (co = - 1 \<or> \<not> mday_over cal nt3))
        \<and> (pw \<and> wd \<noteq> 7 \<and> (co = - 1 \<or> \<not> mday_over cal nt3))
        \<and> (ph \<and> h \<le> 23 \<and> mi \<le> 59))"
    by (rule fl)
  show "year_status (result d) =
       (if co = - 1 then eval_bcd
        else if i = 0 \<and> tm_year (advanced d) \<noteq> base_year cal + 100 * co + tm_year nt3
        then eval_jump
        else if \<not> py then eval_parity else if y > 99 then eval_bcd else eval_ok)"
    by (rule ys)
  show "month_status (result d) =
       (if \<not> pm then eval_parity else if mo = 0 \<or> mo > 12 then eval_bcd
        else if adopt i e0 (increased d) (\<not> (md = 0 \<or> md > 31)) \<and> i = 0
                \<and> tm_mon (advanced d) \<noteq> mo
        then eval_jump else eval_ok)"
    by (rule mos)
  show "mday_status (result d) =
       (if co \<noteq> - 1 \<and> mday_over cal nt3 then eval_bcd
        else if \<not> pm then eval_parity else if md = 0 \<or> md > 31 then eval_bcd
        else if adopt i e0 (increased d) (\<not> (mo = 0 \<or> mo > 12)) \<and> i = 0
                \<and> tm_mday (advanced d) \<noteq> md
        then eval_jump else eval_ok)"
    by (rule mds)
  show "wday_status (result d) =
       (if \<not> pw then eval_parity else if wd = 7 then eval_bcd
        else if adopt i e0 (increased d) True \<and> i = 0 \<and> tm_wday (advanced d) \<noteq> wd
        then eval_jump else eval_ok)"
    by (rule wds)
  show "hour_status (result d) =
       (if \<not> ph then eval_parity else if h > 23 then eval_bcd
        else if adopt i e0 (increased d) (mi \<le> 59) \<and> i = 0 \<and> tm_hour (advanced d) \<noteq> h
        then eval_jump else eval_ok)"
    by (rule hs)
  show "minute_status (result d) =
       (if \<not> ph then eval_parity else if mi > 59 then eval_bcd
        else if adopt i e0 (increased d) (h \<le> 23) \<and> i = 0 \<and> tm_min (advanced d) \<noteq> mi
        then eval_jump else eval_ok)"
    by (rule mis)
  show "candidate d =
       nt3\<lparr>tm_year := (if co = - 1 then tm_year nt3
                        else tm_year nt3 + (base_year cal + 100 * co)),
           tm_hour := (if adopt i e0 (increased d) (ph \<and> h \<le> 23 \<and> mi \<le> 59) then h else 0),
           tm_min := (if adopt i e0 (increased d) (ph \<and> h \<le> 23 \<and> mi \<le> 59) then mi else 0)\<rparr>"
    by (rule cand)
  show "leapsecond_status (result d) = leapsecond_status (dt_res st)"
    by (rule leap)
  show "tm_isdst (candidate d) = (if i = 2 then - 1 else tm_isdst time)"
    by (simp add: cand nt3f(1))
  show "ok_or_jump i (minute_status (result d)) \<and> ok_or_jump i (hour_status (result d)) \<and>
         ok_or_jump i (mday_status (result d)) \<and> ok_or_jump i (wday_status (result d)) \<and>
         ok_or_jump i (month_status (result d)) \<and> ok_or_jump i (year_status (result d))"
    if "flags d AND 0x1f = 0"
  proof -
    from that have p: "e0 = 0" "py" "y \<le> 99" "co \<noteq> - 1" "\<not> mday_over cal nt3" "pm"
      "\<not> (mo = 0 \<or> mo > 12)" "\<not> (md = 0 \<or> md > 31)" "pw" "wd \<noteq> 7" "ph" "h \<le> 23" "mi \<le> 59"
      unfolding fl by simp_all
    show ?thesis
      unfolding ys mos mds wds hs mis ok_or_jump_def using p by simp
  qed
  show "getbcd buffer 25 29 = Some (tm_mon (candidate d)) \<and>
         getbcd buffer 30 35 = Some (tm_mday (candidate d)) \<and>
         getbcd buffer 36 38 = Some (tm_wday (candidate d)) \<and>
         getbcd buffer 39 44 = Some (tm_hour (candidate d)) \<and>
         getbcd buffer 45 51 = Some (tm_min (candidate d))"
    if "flags d AND 0x1f = 0" "i = 0" "increased d \<noteq> 0"
  proof -
    from that(1) have p: "e0 = 0" "py" "y \<le> 99" "co \<noteq> - 1" "\<not> mday_over cal nt3" "pm"
      "\<not> (mo = 0 \<or> mo > 12)" "\<not> (md = 0 \<or> md > 31)" "pw" "wd \<noteq> 7" "ph" "h \<le> 23" "mi \<le> 59"
      unfolding fl by simp_all
    have a: "adopt i e0 (increased d) True"
      using p(1) that(3) by (simp add: adopt_def)
    show ?thesis
      using p a by (simp add: cand nt3f bcd)
  qed
  show "year_status (result d) =
           (if tm_year (candidate d) \<noteq> tm_year (advanced d) then eval_jump else eval_ok) \<and>
         month_status (result d) =
           (if tm_mon (candidate d) \<noteq> tm_mon (advanced d) then eval_jump else eval_ok) \<and>
         mday_status (result d) =
           (if tm_mday (candidate d) \<noteq> tm_mday (advanced d) then eval_jump else eval_ok) \<and>
         wday_status (result d) =
           (if tm_wday (candidate d) \<noteq> tm_wday (advanced d) then eval_jump else eval_ok) \<and>
         hour_status (result d) =
           (if tm_hour (candidate d) \<noteq> tm_hour (advanced d) then eval_jump else eval_ok) \<and>
         minute_status (result d) =
           (if tm_min (candidate d) \<noteq> tm_min (advanced d) then eval_jump else eval_ok)"
    if "flags d AND 0x1f = 0" "i = 0" "increased d \<noteq> 0"
  proof -
    from that(1) have p: "e0 = 0" "py" "y \<le> 99" "co \<noteq> - 1" "\<not> mday_over cal nt3" "pm"
      "\<not> (mo = 0 \<or> mo > 12)" "\<not> (md = 0 \<or> md > 31)" "pw" "wd \<noteq> 7" "ph" "h \<le> 23" "mi \<le> 59"
      unfolding fl by simp_all
    have a: "adopt i e0 (increased d) True"
      using p(1) that(3) by (simp add: adopt_def)
    have ty: "tm_year (candidate d) = tm_year nt3 + (base_year cal + 100 * co)"
      using p(4) by (simp add: cand)
    have tf: "tm_mon (candidate d) = mo" "tm_mday (candidate d) = md" "tm_wday (candidate d) = wd"
      "tm_hour (candidate d) = h" "tm_min (candidate d) = mi"
      using p a by (simp_all add: cand nt3f)
    show ?thesis
      unfolding ys mos mds wds hs mis ty tf using p a that(2) by (auto simp: algebra_simps)
  qed
qed

lemma Some_the: "\<exists>v. x = Some v \<Longrightarrow> x = Some (the x)"
  by auto

lemma decode_values_Some:
  "getbcd buffer 17 24 = Some (the (getbcd buffer 17 24))"
  "getbcd buffer 25 29 = Some (the (getbcd buffer 25 29))"
  "getbcd buffer 30 35 = Some (the (getbcd buffer 30 35))"
  "getbcd buffer 36 38 = Some (the (getbcd buffer 36 38))"
  "getbcd buffer 39 44 = Some (the (getbcd buffer 39 44))"
  "getbcd buffer 45 51 = Some (the (getbcd buffer 45 51))"
proof -
  show "getbcd buffer 17 24 = Some (the (getbcd buffer 17 24))"
    by (rule Some_the, rule getbcd_total) (simp_all add: BUFLEN_def)
  show "getbcd buffer 25 29 = Some (the (getbcd buffer 25 29))"
    by (rule Some_the, rule getbcd_total) (simp_all add: BUFLEN_def)
  show "getbcd buffer 30 35 = Some (the (getbcd buffer 30 35))"
    by (rule Some_the, rule getbcd_total) (simp_all add: BUFLEN_def)
  show "getbcd buffer 36 38 = Some (the (getbcd buffer 36 38))"
    by (rule Some_the, rule getbcd_wday_total)
  show "getbcd buffer 39 44 = Some (the (getbcd buffer 39 44))"
    by (rule Some_the, rule getbcd_total) (simp_all add: BUFLEN_def)
  show "getbcd buffer 45 51 = Some (the (getbcd buffer 45 51))"
    by (rule Some_the, rule getbcd_total) (simp_all add: BUFLEN_def)
qed




lemma decode_curtime:
  assumes "decode_time_run cal st i minlen acc buffer time = Some d"
  shows "curtime d = stamp_date_time (flags d) (candidate d) (advanced d) (result d)"
  using assms by (rule decode_time_run_fields)

lemma decode_increase:
  assumes "decode_time_run cal st i minlen acc buffer time = Some d"
  shows "(increased d, advanced d, acc_minlen_partial (statics d)) =
       increase_old_time cal i minlen acc (if i = 2 then time\<lparr>tm_isdst := - 1\<rparr> else time)
         (dst_announce (dt_res st)) (acc_minlen_partial st)"
  using assms by (rule decode_time_run_fields)

lemma increase_old_time_first:
  "2 \<le> i \<Longrightarrow> fst (snd (increase_old_time cal i minlen acc t ann part)) = t"
  by (simp add: increase_old_time_def Let_def)

lemma stamp_isdst:
  "tm_isdst nt = tm_isdst t \<Longrightarrow> tm_isdst (stamp_date_time e nt t dt) = tm_isdst t"
  by (simp add: stamp_date_time_def Let_def)

section \<open>C2: what a committed minute looks like\<close>

text \<open>
  C2, as the code has it: for every call of \<open>decode_time\<close> that commits (the test of
  \<^verbatim>\<open>stamp_date_time\<close> holds, so minute, hour, day of month, month, year and weekday of the
  current time are replaced by the candidate's), \<open>minute_length\<close> is \<open>emin_ok\<close> and each of
  the six field statuses is \<open>eval_ok\<close> or, on a settled decoder (\<open>init_min = 0\<close>),
  \<open>eval_jump\<close>; none is \<open>eval_parity\<close> or \<open>eval_bcd\<close>.
\<close>

theorem commit_statuses:
  assumes "decode_time_run cal st init_min minlen acc buffer time = Some d"
    and "commits d"
  shows "minute_length (result d) = emin_ok \<and>
    ok_or_jump init_min (minute_status (result d)) \<and>
    ok_or_jump init_min (hour_status (result d)) \<and>
    ok_or_jump init_min (mday_status (result d)) \<and>
    ok_or_jump init_min (wday_status (result d)) \<and>
    ok_or_jump init_min (month_status (result d)) \<and>
    ok_or_jump init_min (year_status (result d)) \<and>
    tm_min (curtime d) = tm_min (candidate d) \<and> tm_hour (curtime d) = tm_hour (candidate d) \<and>
    tm_mday (curtime d) = tm_mday (candidate d) \<and> tm_mon (curtime d) = tm_mon (candidate d) \<and>
    tm_year (curtime d) = tm_year (candidate d) \<and> tm_wday (curtime d) = tm_wday (candidate d)"
proof -
  from assms(2) have c: "minute_length (result d) = emin_ok" "flags d AND 0x1f = 0"
    by (simp_all add: commits_def)
  note s = decode_closed_form(11) [OF assms(1) c(2)]
  note t = stamp_commit [OF c, of "candidate d" "advanced d"]
  show ?thesis
    using c(1) s t by (simp add: decode_curtime [OF assms(1)])
qed

section \<open>C3: a jump is flagged and the value adopted\<close>

text \<open>
  C3, as the code has it: on a settled decoder (\<open>init_min = 0\<close>) whose time was advanced
  (\<open>increase\<close> is not 0) and whose minute commits, the candidate holds the freshly decoded
  values, every field whose decoded value differs from the advanced current time has status
  \<open>eval_jump\<close> (and \<open>eval_ok\<close> when they agree), and the decoded values are adopted into
  the current time. When the minute does not commit, the current time stays the advanced
  time.
\<close>

theorem jump_flagged_and_adopted:
  assumes "decode_time_run cal st 0 minlen acc buffer time = Some d"
  shows "(commits d \<and> increased d \<noteq> 0 \<longrightarrow>
      getbcd buffer 25 29 = Some (tm_mon (candidate d)) \<and>
      getbcd buffer 30 35 = Some (tm_mday (candidate d)) \<and>
      getbcd buffer 36 38 = Some (tm_wday (candidate d)) \<and>
      getbcd buffer 39 44 = Some (tm_hour (candidate d)) \<and>
      getbcd buffer 45 51 = Some (tm_min (candidate d)) \<and>
      year_status (result d) =
        (if tm_year (candidate d) \<noteq> tm_year (advanced d) then eval_jump else eval_ok) \<and>
      month_status (result d) =
        (if tm_mon (candidate d) \<noteq> tm_mon (advanced d) then eval_jump else eval_ok) \<and>
      mday_status (result d) =
        (if tm_mday (candidate d) \<noteq> tm_mday (advanced d) then eval_jump else eval_ok) \<and>
      wday_status (result d) =
        (if tm_wday (candidate d) \<noteq> tm_wday (advanced d) then eval_jump else eval_ok) \<and>
      hour_status (result d) =
        (if tm_hour (candidate d) \<noteq> tm_hour (advanced d) then eval_jump else eval_ok) \<and>
      minute_status (result d) =
        (if tm_min (candidate d) \<noteq> tm_min (advanced d) then eval_jump else eval_ok) \<and>
      tm_min (curtime d) = tm_min (candidate d) \<and> tm_hour (curtime d) = tm_hour (candidate d) \<and>
      tm_mday (curtime d) = tm_mday (candidate d) \<and> tm_mon (curtime d) = tm_mon (candidate d) \<and>
      tm_year (curtime d) = tm_year (candidate d) \<and> tm_wday (curtime d) = tm_wday (candidate d))
    \<and> (\<not> commits d \<longrightarrow> curtime d = advanced d)"
proof (rule conjI; rule impI)
  assume n: "\<not> commits d"
  then show "curtime d = advanced d"
    by (simp add: decode_curtime [OF assms] commits_def stamp_no_commit)
next
  assume a: "commits d \<and> increased d \<noteq> 0"
  then have c: "minute_length (result d) = emin_ok" "flags d AND 0x1f = 0" "increased d \<noteq> 0"
    by (simp_all add: commits_def)
  note v = decode_closed_form(12) [OF assms c(2) refl c(3)]
  note s = decode_closed_form(13) [OF assms c(2) refl c(3)]
  note t = stamp_commit [OF c(1,2), of "candidate d" "advanced d"]
  show "getbcd buffer 25 29 = Some (tm_mon (candidate d)) \<and>
      getbcd buffer 30 35 = Some (tm_mday (candidate d)) \<and>
      getbcd buffer 36 38 = Some (tm_wday (candidate d)) \<and>
      getbcd buffer 39 44 = Some (tm_hour (candidate d)) \<and>
      getbcd buffer 45 51 = Some (tm_min (candidate d)) \<and>
      year_status (result d) =
        (if tm_year (candidate d) \<noteq> tm_year (advanced d) then eval_jump else eval_ok) \<and>
      month_status (result d) =
        (if tm_mon (candidate d) \<noteq> tm_mon (advanced d) then eval_jump else eval_ok) \<and>
      mday_status (result d) =
        (if tm_mday (candidate d) \<noteq> tm_mday (advanced d) then eval_jump else eval_ok) \<and>
      wday_status (result d) =
        (if tm_wday (candidate d) \<noteq> tm_wday (advanced d) then eval_jump else eval_ok) \<and>
      hour_status (result d) =
        (if tm_hour (candidate d) \<noteq> tm_hour (advanced d) then eval_jump else eval_ok) \<and>
      minute_status (result d) =
        (if tm_min (candidate d) \<noteq> tm_min (advanced d) then eval_jump else eval_ok) \<and>
      tm_min (curtime d) = tm_min (candidate d) \<and> tm_hour (curtime d) = tm_hour (candidate d) \<and>
      tm_mday (curtime d) = tm_mday (candidate d) \<and> tm_mon (curtime d) = tm_mon (candidate d) \<and>
      tm_year (curtime d) = tm_year (candidate d) \<and> tm_wday (curtime d) = tm_wday (candidate d)"
    using v s t by (simp only: decode_curtime [OF assms] simp_thms)
qed

section \<open>C5: the leap second\<close>

text \<open>
  C5, as the code has it: \<open>decode_time\<close> always returns, and the returned
  \<open>leapsecond_status\<close> is the one \<open>dt_res\<close> held before the call, whatever the minute of
  the current time: the call of \<open>handle_leap_second\<close> is not compiled. The handler itself,
  given a time whose minute is 0, sets \<open>els_done\<close>, or \<open>els_one\<close> when \<open>minlen = 61\<close> and
  \<open>buffer[17] = 1\<close>.
\<close>

theorem leap_second_not_handled:
  "(\<exists>d. decode_time_run cal st init_min minlen acc buffer time = Some d \<and>
        leapsecond_status (result d) = leapsecond_status (dt_res st)) \<and>
   (tm_min t = 0 \<longrightarrow>
      leapsecond_status (snd (handle_leap_second e minlen buffer t dt)) =
        (if minlen = 61 \<and> buffer 17 = 1 then els_one else els_done))"
proof
  obtain d where d: "decode_time_run cal st init_min minlen acc buffer time = Some d"
    using decode_time_run_total by blast
  then show "\<exists>d. decode_time_run cal st init_min minlen acc buffer time = Some d \<and>
        leapsecond_status (result d) = leapsecond_status (dt_res st)"
    using decode_closed_form(9) [OF d] by blast
  show "tm_min t = 0 \<longrightarrow>
      leapsecond_status (snd (handle_leap_second e minlen buffer t dt)) =
        (if minlen = 61 \<and> buffer 17 = 1 then els_one else els_done)"
    by (simp add: handle_leap_second_def Let_def)
qed

section \<open>C10: the DST flag on the first call\<close>

text \<open>
  C10: every call of \<open>decode_time\<close> with \<open>init_min = 2\<close> returns, the current time it
  decodes against is the given one with \<open>tm_isdst\<close> set to -1, the candidate \<open>newtime\<close>
  carries -1, and so does the current time afterwards.
\<close>

theorem first_call_isdst_unknown:
  "\<exists>d. decode_time_run cal st 2 minlen acc buffer time = Some d \<and>
       advanced d = time\<lparr>tm_isdst := - 1\<rparr> \<and>
       tm_isdst (candidate d) = - 1 \<and> tm_isdst (curtime d) = - 1"
proof -
  obtain d where d: "decode_time_run cal st 2 minlen acc buffer time = Some d"
    using decode_time_run_total by blast
  have "fst (snd (increased d, advanced d, acc_minlen_partial (statics d))) =
        time\<lparr>tm_isdst := - 1\<rparr>"
    unfolding decode_increase [OF d] by (simp add: increase_old_time_first)
  then have a: "advanced d = time\<lparr>tm_isdst := - 1\<rparr>" by simp
  have c: "tm_isdst (candidate d) = - 1"
    using decode_closed_form(10) [OF d] by simp
  have "tm_isdst (curtime d) = tm_isdst (advanced d)"
    unfolding decode_curtime [OF d] by (rule stamp_isdst) (simp add: c a)
  then show ?thesis
    using d a c by simp
qed

section \<open>The example minute, decoded\<close>

lemma frame_2019_values:
  "getpar frame_2019 17 24 54 = Some True" "getbcd frame_2019 17 24 = Some 19"
  "getpar frame_2019 25 35 55 = Some True" "getbcd frame_2019 25 29 = Some 3"
  "getbcd frame_2019 30 35 = Some 15"
  "getpar frame_2019 36 38 56 = Some True" "getbcd frame_2019 36 38 = Some 5"
  "getpar frame_2019 39 51 57 = Some True" "getbcd frame_2019 39 44 = Some 12"
  "getbcd frame_2019 45 51 = Some 34"
  by (simp_all add: getpar_def getpar_loop.simps getbcd_def getbcd_loop.simps frame_2019_def
      zero_buffer_def BUFLEN_def int_ok_def)

lemma frame_2019_errflags0: "errflags0 59 frame_2019 (dt_res init_decoder) = 0"
  by (simp add: errflags0_def check_time_sanity_def Let_def frame_2019_def zero_buffer_def)

lemma frame_2019_minute_length:
  "minute_length (snd (check_time_sanity 59 frame_2019 dt)) = emin_ok"
  by (simp add: check_time_sanity_def Let_def)

lemma increase_60000:
  "i < 2 \<Longrightarrow> increase_old_time spec_calendar i 59 60000 t False 0 = (1, spec_add_minute t False, 0)"
  by (simp add: increase_old_time_def Let_def spec_calendar_def)

lemma frame_2019_dates:
  "newtime (calc_dates 0 0 1 t (zero_tm\<lparr>tm_isdst := x\<rparr>) dt True 19 True 3 15 True 5) =
     zero_tm\<lparr>tm_isdst := x, tm_year := 19, tm_mon := 3, tm_mday := 15, tm_wday := 5\<rparr>"
  by (simp add: calc_dates_newtime adopt_def)

lemma frame_2019_century:
  "century_offset spec_calendar
     (zero_tm\<lparr>tm_isdst := x, tm_year := 19, tm_mon := 3, tm_mday := 15, tm_wday := 5\<rparr>) = 1"
  by (simp add: spec_calendar_def spec_century_offset_def spec_weekday_def zero_tm_def Let_def)

lemma frame_2019_not_over:
  "\<not> mday_over spec_calendar
     (zero_tm\<lparr>tm_isdst := x, tm_year := 19, tm_mon := 3, tm_mday := 15, tm_wday := 5\<rparr>)"
  by (simp add: mday_over_def spec_calendar_def spec_lastday_def zero_tm_def)


lemma calc_blocks_minute_length:
  "minute_length (res (calc_blocks cal i e inc t nt dt py y pm mo md pw wd ph h mi)) =
     minute_length dt"
  by (simp add: calc_blocks_def calc_dates_def block_eqs)

lemma decode_minute_length:
  assumes "decode_time_run cal st i minlen acc buffer time = Some d"
  shows "minute_length (result d) =
         minute_length (snd (check_time_sanity minlen buffer (dt_res st)))"
proof -
  from assms obtain py y pm mo md pw wd ph h mi c where
    c: "c = calc_blocks cal i (errflags0 minlen buffer (dt_res st)) (increased d) (advanced d)
           (zero_tm\<lparr>tm_isdst := (if i = 2 then - 1 else tm_isdst time)\<rparr>)
           (snd (check_time_sanity minlen buffer (dt_res st))) py y pm mo md pw wd ph h mi"
    and r: "result d = res c"
    and "getbcd buffer 17 24 = Some y" "getbcd buffer 25 29 = Some mo"
    "getbcd buffer 30 35 = Some md" "getbcd buffer 36 38 = Some wd"
    "getbcd buffer 39 44 = Some h" "getbcd buffer 45 51 = Some mi"
    by (rule decode_time_run_fields)
  show ?thesis
    by (simp add: r c calc_blocks_minute_length)
qed


lemma spec_calendar_base: "base_year spec_calendar = 1900"
  by (simp add: spec_calendar_def)



lemma frame_2019_run:
  assumes run: "decode_time_run spec_calendar init_decoder 0 59 60000 frame_2019 t = Some d"
  shows "commits d" "increased d = 1" "advanced d = spec_add_minute t False"
    "candidate d = zero_tm\<lparr>tm_isdst := tm_isdst t, tm_year := 2019, tm_mon := 3, tm_mday := 15,
                           tm_wday := 5, tm_hour := 12, tm_min := 34\<rparr>"
    "hour_status (result d) =
       (if tm_hour (spec_add_minute t False) \<noteq> 12 then eval_jump else eval_ok)"
    "minute_status (result d) =
       (if tm_min (spec_add_minute t False) \<noteq> 34 then eval_jump else eval_ok)"
    "tm_hour (curtime d) = 12" "tm_min (curtime d) = 34"
proof -
  have "(increased d, advanced d, acc_minlen_partial (statics d)) =
         (1, spec_add_minute t False, 0)"
    unfolding decode_increase [OF run]
    by (simp add: increase_60000 init_decoder_def zero_DT_result_def)
  then show i: "increased d = 1" and a: "advanced d = spec_add_minute t False"
    by simp_all
  have ml: "minute_length (result d) = emin_ok"
    by (simp add: decode_minute_length [OF run] frame_2019_minute_length)
  have fl: "flags d AND 0x1f = 0"
    unfolding decode_closed_form(1) [OF run]
    by (simp add: i frame_2019_values frame_2019_errflags0 frame_2019_dates
        frame_2019_century frame_2019_not_over)
  show "commits d"
    by (simp add: commits_def ml fl)
  show c: "candidate d = zero_tm\<lparr>tm_isdst := tm_isdst t, tm_year := 2019, tm_mon := 3, tm_mday := 15,
                           tm_wday := 5, tm_hour := 12, tm_min := 34\<rparr>"
    unfolding decode_closed_form(8) [OF run]
    by (simp add: i frame_2019_values frame_2019_errflags0 frame_2019_dates
        frame_2019_century adopt_def spec_calendar_base)
  have inz: "increased d \<noteq> 0" by (simp add: i)
  note s = decode_closed_form(13) [OF run fl refl inz]
  show "hour_status (result d) =
       (if tm_hour (spec_add_minute t False) \<noteq> 12 then eval_jump else eval_ok)"
    using s by (simp add: c a)
  show "minute_status (result d) =
       (if tm_min (spec_add_minute t False) \<noteq> 34 then eval_jump else eval_ok)"
    using s by (simp add: c a)
  note st = stamp_commit [OF ml fl, of "candidate d" "advanced d"]
  show "tm_hour (curtime d) = 12" "tm_min (curtime d) = 34"
    using st by (simp_all add: decode_curtime [OF run] c)
qed

lemma no_marker_no_commit:
  assumes run: "decode_time_run cal init_decoder i minlen acc buffer t = Some d"
    and k: "buffer 0 \<noteq> 4"
  shows "\<not> commits d" "curtime d = advanced d" "leapsecond_status (result d) = els_none"
proof -
  have e: "errflags0 minlen buffer (dt_res init_decoder) = 1"
    using k by (simp add: errflags0_def check_time_sanity_def Let_def)
  have fl: "flags d AND 0x1f \<noteq> 0"
    unfolding decode_closed_form(1) [OF run] by (simp add: e)
  then show n: "\<not> commits d"
    by (simp add: commits_def)
  show "curtime d = advanced d"
    using fl by (simp add: decode_curtime [OF run] stamp_no_commit)
  show "leapsecond_status (result d) = els_none"
    by (simp add: decode_closed_form(9) [OF run] init_decoder_def zero_DT_result_def)
qed

lemma zero_buffer_0: "zero_buffer 0 \<noteq> 4"
  by (simp add: zero_buffer_def)

lemma increase_none:
  "increase_old_time cal i minlen 0 t ann 0 = (0, t, 0)"
  by (simp add: increase_old_time_def Let_def)

lemma time_fields:
  "tm_hour (spec_add_minute time_1033 False) = 10" "tm_min (spec_add_minute time_1033 False) = 34"
  "tm_hour (spec_add_minute time_1233 False) = 12" "tm_min (spec_add_minute time_1233 False) = 34"
  "tm_hour (spec_add_minute time_1240 False) = 12" "tm_min (spec_add_minute time_1240 False) = 41"
  "tm_hour time_1033 = 10" "tm_min time_1240 = 40" "tm_min time_1200 = 0"
  by (simp_all add: spec_add_minute_def time_1033_def time_1233_def time_1240_def time_1200_def)

text \<open>
  The clean minute (current time 12:33, decoded 12:34) commits with length ok and statuses
  ok: an instance of the theorem of C2.
\<close>

theorem commit_statuses_witness:
  "map_option commits run_clean = Some True \<and>
   map_option (\<lambda>d. minute_length (result d) = emin_ok \<and>
                    ok_or_jump 0 (hour_status (result d)) \<and>
                    ok_or_jump 0 (year_status (result d)) \<and>
                    tm_hour (curtime d) = tm_hour (candidate d)) run_clean = Some True"
proof -
  obtain d where d: "decode_time_run spec_calendar init_decoder 0 59 60000 frame_2019 time_1233
                     = Some d"
    using decode_time_run_total by blast
  have c: "commits d" by (rule frame_2019_run(1) [OF d])
  show ?thesis
    using commit_statuses [OF d c] c by (simp add: run_clean_def d)
qed

text \<open>
  C2 as stated (all six statuses are \<open>eval_ok\<close> on a commit) fails: with the current time
  10:33 the example minute commits, the hour becomes 12, and \<open>hour_status\<close> is
  \<open>eval_jump\<close>.
\<close>

theorem commit_with_jump_counterexample:
  "tm_hour time_1033 = 10 \<and>
   map_option commits run_1033 = Some True \<and>
   map_option (hour_status \<circ> result) run_1033 = Some eval_jump \<and>
   map_option (tm_hour \<circ> curtime) run_1033 = Some 12"
proof -
  obtain d where d: "decode_time_run spec_calendar init_decoder 0 59 60000 frame_2019 time_1033
                     = Some d"
    using decode_time_run_total by blast
  show ?thesis
    using frame_2019_run(1,5,7) [OF d] by (simp add: run_1033_def d time_fields)
qed

text \<open>
  Instances of the theorem of C3: from 12:40 the example minute commits with a minute jump
  and the minute adopted; the all-zero buffer does not commit and the time stays the advanced
  one.
\<close>

theorem jump_flagged_and_adopted_witness:
  "map_option (\<lambda>d. commits d \<and> increased d \<noteq> 0 \<and> minute_status (result d) = eval_jump \<and>
                    hour_status (result d) = eval_ok \<and>
                    tm_min (curtime d) = tm_min (candidate d)) run_1240 = Some True \<and>
   map_option (\<lambda>d. \<not> commits d \<and> curtime d = advanced d) run_no_marker = Some True"
proof -
  obtain d where d: "decode_time_run spec_calendar init_decoder 0 59 60000 frame_2019 time_1240
                     = Some d"
    using decode_time_run_total by blast
  obtain d' where d': "decode_time_run spec_calendar init_decoder 0 59 60000 zero_buffer time_1233
                     = Some d'"
    using decode_time_run_total by blast
  have n: "\<not> commits d'"
    by (rule no_marker_no_commit(1) [OF d' zero_buffer_0])
  have c: "commits d" "increased d \<noteq> 0" "advanced d = spec_add_minute time_1240 False"
    "candidate d = zero_tm\<lparr>tm_isdst := tm_isdst time_1240, tm_year := 2019, tm_mon := 3,
                           tm_mday := 15, tm_wday := 5, tm_hour := 12, tm_min := 34\<rparr>"
    using frame_2019_run(1-4) [OF d] by simp_all
  show ?thesis
    using jump_flagged_and_adopted [OF d] jump_flagged_and_adopted [OF d'] c n
    by (simp add: run_1240_def run_no_marker_def d d' time_fields)
qed

text \<open>
  C3 as stated (the decoded value is not adopted) fails: from 12:40 the advanced minute is
  41, the decoded minute is 34, \<open>minute_status\<close> is \<open>eval_jump\<close>, and the current time
  afterwards has minute 34.
\<close>

theorem jump_adopted_counterexample:
  "getbcd frame_2019 45 51 = Some 34 \<and>
   map_option (tm_min \<circ> advanced) run_1240 = Some 41 \<and>
   map_option (minute_status \<circ> result) run_1240 = Some eval_jump \<and>
   map_option (tm_min \<circ> curtime) run_1240 = Some 34"
proof -
  obtain d where d: "decode_time_run spec_calendar init_decoder 0 59 60000 frame_2019 time_1240
                     = Some d"
    using decode_time_run_total by blast
  show ?thesis
    using frame_2019_run(3,6,8) [OF d]
    by (simp add: run_1240_def d time_fields frame_2019_values)
qed

text \<open>
  An instance of the theorem of C5: a 61-bit minute on the hour with \<open>buffer[17] = 1\<close>
  leaves \<open>leapsecond_status\<close> at \<open>els_none\<close> in \<open>decode_time\<close>, while the handler alone
  gives \<open>els_one\<close>.
\<close>

theorem leap_second_not_handled_witness:
  "(\<exists>d. run_leap_61 = Some d \<and> leapsecond_status (result d) = els_none) \<and>
   leapsecond_status (snd (handle_leap_second 0 61 (zero_buffer(17 := 1)) time_1200
      zero_DT_result)) = els_one"
  using leap_second_not_handled [of spec_calendar init_decoder 1 61 0 "zero_buffer(17 := 1)"
      time_1200 time_1200 0 zero_DT_result]
  by (simp add: run_leap_61_def time_fields init_decoder_def zero_DT_result_def)

text \<open>
  C5 as stated fails: with \<open>init_min = 1\<close> and the current time 12:00 before, during and
  after the call, the returned \<open>leapsecond_status\<close> is \<open>els_none\<close>, not \<open>els_done\<close>.
\<close>

theorem leap_second_counterexample:
  "tm_min time_1200 = 0 \<and>
   map_option (tm_min \<circ> advanced) run_on_hour = Some 0 \<and>
   map_option (tm_min \<circ> curtime) run_on_hour = Some 0 \<and>
   map_option (leapsecond_status \<circ> result) run_on_hour = Some els_none"
proof -
  obtain d where d: "decode_time_run spec_calendar init_decoder 1 59 0 zero_buffer time_1200
                     = Some d"
    using decode_time_run_total by blast
  have a: "advanced d = time_1200"
    using decode_increase [OF d] by (simp add: increase_none init_decoder_def)
  show ?thesis
    using no_marker_no_commit(2,3) [OF d zero_buffer_0] a d
    by (simp add: run_on_hour_def time_fields)
qed

end
